theory Spec2Isabelle
  imports Complex_Main "HOL-Library.Monad_Syntax"
begin

section \<open>Data model (models.py)\<close>

text \<open>
  Python floats are modelled as \<open>real\<close>: the arithmetic of the editor (differences,
  quotients, \<open>max\<close>) is read as exact arithmetic; \<open>nan\<close> and the infinities have no
  counterpart. Python's \<open>None\<close>-able attributes are \<open>option\<close>s.
\<close>

record MediaItem =
  path :: string
  name :: string
  mtype :: string                \<comment> \<open>\<open>self.type\<close>: video, audio, image or unknown\<close>
  duration :: "real option"      \<comment> \<open>probed once; \<open>None\<close> when unknown\<close>

record TimelineClip =
  media :: MediaItem
  start :: real
  end_time :: "real option"      \<comment> \<open>\<open>self.end\<close>\<close>
  title :: string
  title_size :: int
  title_pos :: string
  lut :: string
  transition :: string
  track :: int
  speed :: real
  preview_dir :: "string option"
  thumb_paths :: "string list"
  waveform_path :: "string option"
  proxy_path :: "string option"

text \<open>\<open>TimelineClip.__init__\<close>: the attribute defaults of a fresh clip.\<close>

definition new_clip :: "MediaItem \<Rightarrow> TimelineClip" where
  "new_clip m =
     \<lparr> media = m, start = 0, end_time = None, title = [], title_size = 36,
       title_pos = ''(w-text_w)/2'', lut = ''none'', transition = ''none'', track = 0,
       speed = 1, preview_dir = None, thumb_paths = [], waveform_path = None,
       proxy_path = None \<rparr>"

text \<open>Python's \<open>x or 0.0\<close> on a float: a falsy (zero) \<open>x\<close> gives the default.\<close>

definition or_float :: "real \<Rightarrow> real \<Rightarrow> real" where
  "or_float x d = (if x = 0 then d else x)"

text \<open>
  \<open>duration_effective\<close>: the base duration is 5.0 for media without a probed duration,
  else the trim window floored at 0.2; the speed is guarded (\<open>spd <= 0\<close> becomes 1.0)
  and the quotient is floored at 0.2 again.
\<close>

definition base_duration :: "TimelineClip \<Rightarrow> real" where
  "base_duration c =
     (case duration (media c) of
        None \<Rightarrow> 5
      | Some d \<Rightarrow>
          (let st = or_float (start c) 0;
               en = (case end_time c of Some e \<Rightarrow> e | None \<Rightarrow> d)
           in max (2 / 10) (en - st)))"

definition duration_effective :: "TimelineClip \<Rightarrow> real" where
  "duration_effective c =
     (let base = base_duration c;
          spd = speed c;
          spd = (if spd \<le> 0 then 1 else spd)
      in max (2 / 10) (base / spd))"

section \<open>Formatted strings and command lines\<close>

text \<open>
  Python strings are \<open>string\<close>s. An f-string that embeds a float is a list of pieces:
  \<open>S s\<close> is the literal text \<open>s\<close>, \<open>F x\<close> the text \<open>str(x)\<close> of the float \<open>x\<close>,
  \<open>F6 x\<close> the text of \<open>x\<close> under the format \<open>:.6f\<close>. A command line is the list of
  its arguments.
\<close>

datatype piece = S string | F real | F6 real

type_synonym fstr = "piece list"

type_synonym cmd = "fstr list"

definition sq :: string where "sq = [CHR 0x27]"   \<comment> \<open>a single quote\<close>

definition bs :: string where "bs = [CHR 0x5C]"   \<comment> \<open>a backslash\<close>

definition dq :: string where "dq = [CHR 0x22]"   \<comment> \<open>a double quote\<close>

definition nl :: string where "nl = [CHR 0x0A]"   \<comment> \<open>a newline\<close>

text \<open>\<open>sep.join(xs)\<close>, on strings and on formatted strings.\<close>

fun join_with :: "'a list \<Rightarrow> 'a list list \<Rightarrow> 'a list" where
  "join_with sep [] = []"
| "join_with sep [x] = x"
| "join_with sep (x # y # ys) = x @ sep @ join_with sep (y # ys)"

text \<open>\<open>s.replace(c, r)\<close> for a one-character pattern \<open>c\<close>.\<close>

definition replace_char :: "char \<Rightarrow> string \<Rightarrow> string \<Rightarrow> string" where
  "replace_char c r s = concat (map (\<lambda>x. if x = c then r else [x]) s)"

text \<open>\<open>str(n)\<close> of a non-negative int and of an int.\<close>

definition digit_char :: "nat \<Rightarrow> char" where
  "digit_char d = ''0123456789'' ! d"

fun str_nat :: "nat \<Rightarrow> string" where
  "str_nat n = (if n < 10 then [digit_char n] else str_nat (n div 10) @ [digit_char (n mod 10)])"

declare str_nat.simps [simp del]

definition str_int :: "int \<Rightarrow> string" where
  "str_int i = (if i < 0 then ''-'' @ str_nat (nat (- i)) else str_nat (nat i))"

text \<open>
  \<open>os.path.join(a, b)\<close> for a directory \<open>a\<close> and a relative name \<open>b\<close>, with the POSIX
  separator.
\<close>

definition path_join :: "string \<Rightarrow> string \<Rightarrow> string" where
  "path_join a b = a @ ''/'' @ b"

text \<open>\<open>safe_path_for_concat\<close> (utils.py).\<close>

definition safe_path_for_concat :: "string \<Rightarrow> string" where
  "safe_path_for_concat p =
     (let p = replace_char (CHR 0x5C) ''/'' p;
          p = replace_char (CHR 0x27) (sq @ bs @ sq @ sq) p
      in p)"

section \<open>The audio tempo chain (export.py, effect\_preview\_worker.py)\<close>

text \<open>
  \<open>atempo_chain\<close> is defined twice in the source, with the same body. Its two \<open>while\<close>
  loops are the functions below; a loop that does not return has the value \<open>None\<close>.
  The chain is the list of the emitted stage texts, joined with commas at the end.
\<close>

partial_function (option) halve_loop :: "real \<Rightarrow> fstr list \<Rightarrow> (real \<times> fstr list) option" where
  "halve_loop remaining chain =
     (if remaining > 2 then halve_loop (remaining / 2) (chain @ [[S ''atempo=2.0'']])
      else Some (remaining, chain))"

partial_function (option) double_loop :: "real \<Rightarrow> fstr list \<Rightarrow> (real \<times> fstr list) option" where
  "double_loop remaining chain =
     (if remaining < 5 / 10 then double_loop (remaining * 2) (chain @ [[S ''atempo=0.5'']])
      else Some (remaining, chain))"

definition atempo_stages :: "real \<Rightarrow> fstr list option" where
  "atempo_stages v0 =
     (let v = (if v0 \<le> 0 then 1 else v0) in
      case halve_loop v [] of
        None \<Rightarrow> None
      | Some (remaining, chain) \<Rightarrow>
          (case double_loop remaining chain of
             None \<Rightarrow> None
           | Some (remaining, chain) \<Rightarrow> Some (chain @ [[S ''atempo='', F6 remaining]])))"

definition atempo_chain :: "real \<Rightarrow> fstr option" where
  "atempo_chain v = map_option (join_with [S '','']) (atempo_stages v)"

text \<open>The tempo ratio that a stage text passes to the external tool.\<close>

fun stage_ratio :: "fstr \<Rightarrow> real" where
  "stage_ratio [S s] = (if s = ''atempo=2.0'' then 2 else if s = ''atempo=0.5'' then 5 / 10 else 0)"
| "stage_ratio [S s, F6 r] = (if s = ''atempo='' then r else 0)"
| "stage_ratio _ = 0"

definition stages_ok :: "fstr list \<Rightarrow> bool" where
  "stages_ok ch = (\<forall>st \<in> set ch. 5 / 10 \<le> stage_ratio st \<and> stage_ratio st \<le> 2)"

section \<open>Export (export.py)\<close>

text \<open>The constants of \<open>FFmpegConfig\<close> (config.py).\<close>

definition PRESET :: string where "PRESET = ''fast''"

definition CRF :: int where "CRF = 20"

definition AUDIO_BITRATE :: string where "AUDIO_BITRATE = ''192k''"

definition VOLUME_BG_MUSIC :: real where "VOLUME_BG_MUSIC = 6 / 10"

definition CROSSFADE_DURATION :: real where "CROSSFADE_DURATION = 1"

text \<open>A list of literal arguments.\<close>

definition args :: "string list \<Rightarrow> cmd" where
  "args xs = map (\<lambda>x. [S x]) xs"

subsection \<open>The command of one clip\<close>

text \<open>
  The trim arguments of \<open>_render_single_clip\<close>. \<open>clip.start and clip.start > 0\<close> and
  \<open>clip.end and (clip.end > (clip.start or 0.0))\<close> test the truth value of a float
  first, which is false for 0.0 and for \<open>None\<close>.
\<close>

definition start_args :: "TimelineClip \<Rightarrow> cmd" where
  "start_args c = (if start c \<noteq> 0 \<and> start c > 0 then [[S ''-ss''], [F (start c)]] else [])"

definition duration_args :: "TimelineClip \<Rightarrow> cmd" where
  "duration_args c =
     (case end_time c of
        None \<Rightarrow> []
      | Some e \<Rightarrow>
          if e \<noteq> 0 \<and> e > or_float (start c) 0
          then [[S ''-t''], [F (e - or_float (start c) 0)]]
          else [])"

text \<open>The LUT and title filters; \<open>ex\<close> is \<open>os.path.exists\<close>.\<close>

definition lut_filters :: "(string \<Rightarrow> bool) \<Rightarrow> string \<Rightarrow> TimelineClip \<Rightarrow> fstr list" where
  "lut_filters ex ld c =
     (if lut c \<noteq> [] \<and> lut c \<noteq> ''none'' then
        (let lut_path = path_join ld (lut c)
         in if ex lut_path then [[S (''lut3d=file='' @ sq @ lut_path @ sq)]] else [])
      else [])"

definition title_filters :: "TimelineClip \<Rightarrow> fstr list" where
  "title_filters c =
     (if title c \<noteq> [] then
        (let text_esc = replace_char (CHR 0x27) (bs @ sq) (title c)
         in [[S (''drawtext=text='' @ sq @ text_esc @ sq @ '':fontcolor=white:''
                 @ ''fontsize='' @ str_int (title_size c) @ '':x='' @ title_pos c @ '':''
                 @ ''y=(h-'' @ str_int (title_size c)
                 @ ''-40):shadowcolor=black:shadowx=2:shadowy=2'')]])
      else [])"

text \<open>
  The speed stage: \<open>spd = float(getattr(clip, 'speed', 1.0) or 1.0)\<close>, and for
  \<open>spd != 1.0\<close> one video filter and the tempo chain as the audio filter. \<open>None\<close>
  stands for a tempo chain that does not return.
\<close>

definition speed_filters :: "real \<Rightarrow> (fstr list \<times> fstr list) option" where
  "speed_filters spd =
     (if spd \<noteq> 1 then
        (case atempo_chain spd of
           None \<Rightarrow> None
         | Some a \<Rightarrow> Some ([[S ''setpts=PTS/'', F spd]], [a]))
      else Some ([], []))"

definition codec_args :: cmd where
  "codec_args =
     args [''-c:v'', ''libx264'', ''-preset'', PRESET, ''-crf'', str_int CRF,
           ''-c:a'', ''aac'', ''-b:a'', AUDIO_BITRATE]"

definition render_cmd :: "(string \<Rightarrow> bool) \<Rightarrow> string \<Rightarrow> TimelineClip \<Rightarrow> string \<Rightarrow> cmd option" where
  "render_cmd ex ld c output_path =
     (let src = path (media c);
          filters = lut_filters ex ld c @ title_filters c;
          spd = or_float (speed c) 1
      in case speed_filters spd of
           None \<Rightarrow> None
         | Some (vs, a_filters) \<Rightarrow>
             (let filters = filters @ vs
              in Some (args [''ffmpeg'', ''-y''] @ start_args c @ args [''-i'', src]
                       @ duration_args c
                       @ (if filters \<noteq> [] then [[S ''-vf''], join_with [S '',''] filters] else [])
                       @ (if a_filters \<noteq> [] then [[S ''-af''], join_with [S '',''] a_filters] else [])
                       @ codec_args @ args [output_path])))"

subsection \<open>Running the pipeline\<close>

text \<open>
  The exporter object is passed along as state, together with the trace of what the
  export did to the outside: the commands it ran, the manifest it wrote and the
  \<open>os.replace\<close> that succeeded. The environment gives the result of \<open>run_cmd\<close>
  (exit code, stdout, stderr; a timeout or an exception of the subprocess is exit code
  \<open>-1\<close>), \<open>os.path.exists\<close>, and whether \<open>os.replace\<close> succeeds. A raised
  \<open>RuntimeError\<close> is \<open>Raised\<close> with its message; \<open>Diverged\<close> is a step that does
  not return. Creating the temporary directory and writing the manifest are taken to
  succeed.
\<close>

record ProjectExporter =
  ex_timeline :: "TimelineClip list"      \<comment> \<open>\<open>self.timeline\<close>\<close>
  bg_music :: "string option"
  lut_dir :: string

datatype failure = Raised string | Diverged

datatype event = Ran cmd | Wrote string "string list" | Replaced string string

record export_env =
  run_cmd :: "cmd \<Rightarrow> int \<times> string \<times> string"
  os_path_exists :: "string \<Rightarrow> bool"
  os_replace :: "string \<Rightarrow> string \<Rightarrow> bool"

record export_state =
  exporter :: ProjectExporter
  trace :: "event list"

type_synonym 'a exec = "export_state \<Rightarrow> export_state \<times> (failure + 'a)"

definition return_exec :: "'a \<Rightarrow> 'a exec" where
  "return_exec x s = (s, Inr x)"

definition bind_exec :: "'a exec \<Rightarrow> ('a \<Rightarrow> 'b exec) \<Rightarrow> 'b exec" where
  "bind_exec m f s = (case m s of (s', Inl e) \<Rightarrow> (s', Inl e) | (s', Inr x) \<Rightarrow> f x s')"

text \<open>
  \<open>code, _, err = run_cmd(cmd)\<close> followed by
  \<open>if code != 0: raise RuntimeError(f"<label>{err}")\<close>.
\<close>

definition run_checked :: "export_env \<Rightarrow> string \<Rightarrow> cmd \<Rightarrow> unit exec" where
  "run_checked env label c s =
     (case run_cmd env c of
        (code, out, err) \<Rightarrow>
          (s\<lparr> trace := trace s @ [Ran c] \<rparr>,
           if code \<noteq> 0 then Inl (Raised (label @ err)) else Inr ()))"

definition render_single_clip :: "export_env \<Rightarrow> TimelineClip \<Rightarrow> string \<Rightarrow> unit exec" where
  "render_single_clip env c output_path s =
     (case render_cmd (os_path_exists env) (lut_dir (exporter s)) c output_path of
        None \<Rightarrow> (s, Inl Diverged)
      | Some k \<Rightarrow> run_checked env ''Failed to render clip: '' k s)"

fun render_loop :: "export_env \<Rightarrow> string \<Rightarrow> nat \<Rightarrow> TimelineClip list \<Rightarrow> string list exec" where
  "render_loop env temp_dir idx [] = return_exec []"
| "render_loop env temp_dir idx (c # rest) =
     (let rendered_path = path_join temp_dir (''clip_'' @ str_nat idx @ ''.mp4'')
      in bind_exec (render_single_clip env c rendered_path)
           (\<lambda>u. bind_exec (render_loop env temp_dir (Suc idx) rest)
              (\<lambda>paths. return_exec (rendered_path # paths))))"

definition render_all_clips :: "export_env \<Rightarrow> string \<Rightarrow> string list exec" where
  "render_all_clips env temp_dir s = render_loop env temp_dir 0 (ex_timeline (exporter s)) s"

subsection \<open>Sequence assembly\<close>

text \<open>\<open>_concatenate_simple\<close>: the manifest and the stream-copy concat command.\<close>

definition manifest_lines :: "string list \<Rightarrow> string list" where
  "manifest_lines clips = map (\<lambda>p. ''file '' @ dq @ safe_path_for_concat p @ dq @ nl) clips"

definition simple_concat_cmd :: "string \<Rightarrow> string \<Rightarrow> cmd" where
  "simple_concat_cmd concat_list concat_out =
     args [''ffmpeg'', ''-y'', ''-f'', ''concat'', ''-safe'', ''0'', ''-i'', concat_list,
           ''-c'', ''copy'', concat_out]"

definition concatenate_simple :: "export_env \<Rightarrow> string list \<Rightarrow> string \<Rightarrow> string exec" where
  "concatenate_simple env clips temp_dir s =
     (let concat_list = path_join temp_dir ''concat_list.txt'';
          s = s\<lparr> trace := trace s @ [Wrote concat_list (manifest_lines clips)] \<rparr>;
          concat_out = path_join temp_dir ''concatenated.mp4''
      in bind_exec
           (run_checked env ''Failed to concatenate clips: ''
              (simple_concat_cmd concat_list concat_out))
           (\<lambda>u. return_exec concat_out) s)"

text \<open>
  \<open>_concatenate_with_transitions\<close>. The transition of step \<open>i\<close> is read from
  \<open>self.timeline[i-1]\<close>; an empty value and an index out of range (the \<open>except\<close>)
  give \<open>none\<close>, and \<open>crossfade\<close> is renamed to \<open>fade\<close>.
\<close>

definition transition_of :: "TimelineClip list \<Rightarrow> nat \<Rightarrow> string" where
  "transition_of tline j =
     (let tr = (if j < length tline
                then (if transition (tline ! j) = [] then ''none'' else transition (tline ! j))
                else ''none'')
      in if tr = ''crossfade'' then ''fade'' else tr)"

definition concat_pair_cmd :: "string \<Rightarrow> string \<Rightarrow> string \<Rightarrow> cmd" where
  "concat_pair_cmd current next_clip out_chain =
     args [''ffmpeg'', ''-y'', ''-i'', current, ''-i'', next_clip, ''-filter_complex'',
           ''[0:v][0:a][1:v][1:a]concat=n=2:v=1:a=1[v][a]'',
           ''-map'', ''[v]'', ''-map'', ''[a]'']
     @ codec_args @ args [out_chain]"

definition xfade_cmd :: "string \<Rightarrow> string \<Rightarrow> string \<Rightarrow> string \<Rightarrow> cmd" where
  "xfade_cmd tr current next_clip out_chain =
     args [''ffmpeg'', ''-y'', ''-i'', current, ''-i'', next_clip, ''-filter_complex'']
     @ [[S (''[0:v][1:v]xfade=transition='' @ tr @ '':duration=''), F CROSSFADE_DURATION,
         S '':offset=1,format=yuv420p'']]
     @ codec_args @ args [out_chain]"

definition transition_cmd :: "string \<Rightarrow> string \<Rightarrow> string \<Rightarrow> string \<Rightarrow> cmd" where
  "transition_cmd tr current next_clip out_chain =
     (if tr = ''none'' then concat_pair_cmd current next_clip out_chain
      else xfade_cmd tr current next_clip out_chain)"

fun transitions_loop :: "export_env \<Rightarrow> string \<Rightarrow> nat \<Rightarrow> string \<Rightarrow> string list \<Rightarrow> string exec" where
  "transitions_loop env temp_dir i current [] = return_exec current"
| "transitions_loop env temp_dir i current (next_clip # rest) =
     (\<lambda>s. let out_chain = path_join temp_dir (''xfade_'' @ str_nat (i - 1) @ ''.mp4'');
              tr = transition_of (ex_timeline (exporter s)) (i - 1)
          in bind_exec
               (run_checked env ''Failed transition step: ''
                  (transition_cmd tr current next_clip out_chain))
               (\<lambda>u. transitions_loop env temp_dir (Suc i) out_chain rest) s)"

definition concatenate_with_transitions :: "export_env \<Rightarrow> string list \<Rightarrow> string \<Rightarrow> string exec" where
  "concatenate_with_transitions env clips temp_dir s =
     (case clips of
        [] \<Rightarrow> (s, Inl (Raised ''list index out of range''))
      | current # rest \<Rightarrow> transitions_loop env temp_dir 1 current rest s)"

text \<open>The choice that \<open>export\<close> makes between the two.\<close>

definition assemble :: "export_env \<Rightarrow> string \<Rightarrow> string list \<Rightarrow> string exec" where
  "assemble env temp_dir rendered_clips s =
     (let use_transitions = list_ex (\<lambda>c. transition c = ''crossfade'') (ex_timeline (exporter s))
      in if use_transitions then concatenate_with_transitions env rendered_clips temp_dir s
         else concatenate_simple env rendered_clips temp_dir s)"

subsection \<open>Music, finalization and the whole export\<close>

definition music_cmd :: "string \<Rightarrow> string \<Rightarrow> cmd" where
  "music_cmd music music_adj =
     args [''ffmpeg'', ''-y'', ''-i'', music, ''-filter:a'']
     @ [[S ''volume='', F VOLUME_BG_MUSIC]]
     @ args [''-c:a'', ''aac'', ''-b:a'', AUDIO_BITRATE, music_adj]"

definition mix_cmd :: "string \<Rightarrow> string \<Rightarrow> string \<Rightarrow> cmd" where
  "mix_cmd video_path music_adj output_path =
     args [''ffmpeg'', ''-y'', ''-i'', video_path, ''-i'', music_adj, ''-filter_complex'',
           ''[0:a]volume=1[a0];[1:a]volume=1[a1];[a0][a1]amix=inputs=2:duration=longest:dropout_transition=2[aout]'',
           ''-map'', ''0:v'', ''-map'', ''[aout]'', ''-c:v'', ''copy'', ''-c:a'', ''aac'',
           ''-b:a'', AUDIO_BITRATE, output_path]"

text \<open>
  \<open>_add_background_music\<close>; \<open>music\<close> is \<open>self.bg_music\<close>, which the caller has found
  set and not empty. The mix command writes to the output path itself.
\<close>

definition add_background_music :: "export_env \<Rightarrow> string \<Rightarrow> string \<Rightarrow> string \<Rightarrow> string \<Rightarrow> unit exec" where
  "add_background_music env music video_path output_path temp_dir =
     (let music_adj = path_join temp_dir ''bg.aac''
      in bind_exec (run_checked env ''Failed to process music: '' (music_cmd music music_adj))
           (\<lambda>u. run_checked env ''Failed to mix background music: ''
                   (mix_cmd video_path music_adj output_path)))"

definition copy_cmd :: "string \<Rightarrow> string \<Rightarrow> cmd" where
  "copy_cmd source destination = args [''ffmpeg'', ''-y'', ''-i'', source, ''-c'', ''copy'', destination]"

text \<open>\<open>_copy_to_output\<close>: \<open>os.replace\<close>, and the copy by the tool when it raises.\<close>

definition copy_to_output :: "export_env \<Rightarrow> string \<Rightarrow> string \<Rightarrow> unit exec" where
  "copy_to_output env source destination s =
     (if os_replace env source destination
      then (s\<lparr> trace := trace s @ [Replaced source destination] \<rparr>, Inr ())
      else run_checked env ''Failed to produce final output: '' (copy_cmd source destination) s)"

definition finalize :: "export_env \<Rightarrow> string \<Rightarrow> string \<Rightarrow> string \<Rightarrow> unit exec" where
  "finalize env output_path temp_dir final_video s =
     (case bg_music (exporter s) of
        None \<Rightarrow> copy_to_output env final_video output_path s
      | Some music \<Rightarrow>
          if music \<noteq> [] then add_background_music env music final_video output_path temp_dir s
          else copy_to_output env final_video output_path s)"

text \<open>
  \<open>except Exception as e: raise RuntimeError(f"Export failed: {str(e)}")\<close> around the
  body of \<open>export\<close>.
\<close>

definition wrap_failure :: "export_state \<times> (failure + unit) \<Rightarrow> export_state \<times> (failure + unit)" where
  "wrap_failure r =
     (case r of
        (s, Inl (Raised m)) \<Rightarrow> (s, Inl (Raised (''Export failed: '' @ m)))
      | (s, Inl Diverged) \<Rightarrow> (s, Inl Diverged)
      | (s, Inr u) \<Rightarrow> (s, Inr u))"

definition export :: "export_env \<Rightarrow> string \<Rightarrow> string \<Rightarrow> unit exec" where
  "export env output_path temp_dir s =
     wrap_failure
       (bind_exec (render_all_clips env temp_dir)
          (\<lambda>rendered_clips.
             bind_exec (assemble env temp_dir rendered_clips)
               (\<lambda>final_video. finalize env output_path temp_dir final_video)) s)"

subsection \<open>Outcomes of a run\<close>

text \<open>
  The labels of the six \<open>raise RuntimeError(f"<label>{err}")\<close> of the pipeline, and
  what a step leaves behind: the events it appended to the trace and its result. A step
  that returns has run only commands that exited with 0; a step that raises has run one
  failing command, the last one, and raises its label followed by the diagnostic of that
  command; \<open>os.replace\<close> onto the output path happens only in the last step, and only
  when it returns.
\<close>

definition failure_labels :: "string list" where
  "failure_labels =
     [''Failed to render clip: '', ''Failed to concatenate clips: '',
      ''Failed transition step: '', ''Failed to process music: '',
      ''Failed to mix background music: '', ''Failed to produce final output: '']"

fun succeeded :: "export_env \<Rightarrow> event \<Rightarrow> bool" where
  "succeeded env (Ran c) = (fst (run_cmd env c) = 0)"
| "succeeded env (Wrote p ls) = True"
| "succeeded env (Replaced a b) = True"

fun is_promotion :: "event \<Rightarrow> bool" where
  "is_promotion (Replaced a b) = True"
| "is_promotion (Ran c) = False"
| "is_promotion (Wrote p ls) = False"

definition outcome :: "bool \<Rightarrow> export_env \<Rightarrow> event list \<Rightarrow> failure + 'a \<Rightarrow> bool" where
  "outcome final env evs res =
     (case res of
        Inr x \<Rightarrow> list_all (succeeded env) evs \<and> (final \<or> \<not> list_ex is_promotion evs)
      | Inl Diverged \<Rightarrow> False
      | Inl (Raised m) \<Rightarrow>
          \<not> list_ex is_promotion evs
          \<and> (\<exists>pre c. evs = pre @ [Ran c] \<and> list_all (succeeded env) pre
                \<and> fst (run_cmd env c) \<noteq> 0
                \<and> (\<exists>label \<in> set failure_labels. m = label @ snd (snd (run_cmd env c)))))"

definition step_at :: "bool \<Rightarrow> export_env \<Rightarrow> 'a exec \<Rightarrow> export_state \<Rightarrow> bool" where
  "step_at final env m s =
     (\<exists>evs res. m s = (s\<lparr> trace := trace s @ evs \<rparr>, res) \<and> outcome final env evs res)"

subsection \<open>The assembly as the specification words it\<close>

text \<open>
  The events of the assembly stage, written from the specification: a manifest and one
  stream-copy concat when no clip has the transition \<open>crossfade\<close>; otherwise a fold
  from the left over the rendered clips, where the step that joins the accumulated file
  with the next clip is a filter-graph concat of video and audio when the left clip's
  transition is \<open>none\<close> or empty, and a video-only xfade with the clip's style
  otherwise (\<open>crossfade\<close> is the style \<open>fade\<close>). \<open>until_failure\<close> gives the events
  of such a plan that a run reaches: all of them up to the first command that fails.
\<close>

fun spec_chain :: "string \<Rightarrow> TimelineClip list \<Rightarrow> string \<Rightarrow> string list \<Rightarrow> nat \<Rightarrow> event list" where
  "spec_chain temp_dir (left # lefts) acc (nxt # rest) k =
     (let out = path_join temp_dir (''xfade_'' @ str_nat k @ ''.mp4'')
      in Ran (if transition left = ''none'' \<or> transition left = [] then concat_pair_cmd acc nxt out
              else xfade_cmd (if transition left = ''crossfade'' then ''fade'' else transition left)
                     acc nxt out)
         # spec_chain temp_dir lefts out rest (Suc k))"
| "spec_chain temp_dir lefts acc rest k = []"

definition spec_assembly :: "string \<Rightarrow> TimelineClip list \<Rightarrow> string list \<Rightarrow> event list" where
  "spec_assembly temp_dir tline rendered =
     (if \<forall>c \<in> set tline. transition c \<noteq> ''crossfade''
      then [Wrote (path_join temp_dir ''concat_list.txt'') (manifest_lines rendered),
            Ran (simple_concat_cmd (path_join temp_dir ''concat_list.txt'')
                   (path_join temp_dir ''concatenated.mp4''))]
      else (case rendered of
              [] \<Rightarrow> []
            | first # rest \<Rightarrow> spec_chain temp_dir tline first rest 0))"

fun until_failure :: "export_env \<Rightarrow> event list \<Rightarrow> event list" where
  "until_failure env [] = []"
| "until_failure env (e # es) = (if succeeded env e then e # until_failure env es else [e])"

section \<open>The editor window: sequencer and split (main\_window.py)\<close>

text \<open>
  Clip objects have identity (\<open>is\<close>, and \<open>list.index\<close> on objects without \<open>__eq__\<close>):
  the window's heap maps references to clip values, and both the timeline and the list
  of graphics items hold references (an item stands for the clip it shows). A new object
  takes the next free reference.
\<close>

type_synonym ref = nat

record MainWindow =
  heap :: "ref \<Rightarrow> TimelineClip"
  timeline :: "ref list"           \<comment> \<open>\<open>self.timeline\<close>\<close>
  items_list :: "ref list"         \<comment> \<open>\<open>self.visual_timeline.items_list\<close>\<close>
  item_x :: "ref \<Rightarrow> real"        \<comment> \<open>\<open>x()\<close> of the item that shows the clip\<close>
  item_width :: "ref \<Rightarrow> real"    \<comment> \<open>\<open>width\<close> of the item that shows the clip\<close>
  px_per_sec :: real               \<comment> \<open>\<open>self.visual_timeline.px_per_sec()\<close>\<close>
  playhead_sec :: real             \<comment> \<open>\<open>self.visual_timeline.playhead_sec\<close>\<close>
  next_ref :: ref

text \<open>\<open>_clip_at_global_time\<close>: the loop over the items, with the accumulated time \<open>t\<close>.\<close>

fun clip_at_from :: "(ref \<Rightarrow> TimelineClip) \<Rightarrow> real \<Rightarrow> real \<Rightarrow> ref list \<Rightarrow> (ref \<times> real) option" where
  "clip_at_from h sec t [] = None"
| "clip_at_from h sec t (item # items) =
     (let dur = duration_effective (h item) in
      if sec < t + dur then Some (item, sec - t)
      else clip_at_from h sec (t + dur) items)"

definition clip_at_global_time :: "MainWindow \<Rightarrow> real \<Rightarrow> (ref \<times> real) option" where
  "clip_at_global_time w sec = clip_at_from (heap w) sec 0 (items_list w)"

text \<open>\<open>_cumulative_start_of\<close>: the loop compares by identity and returns 0.0 at the end.\<close>

fun cumulative_from :: "(ref \<Rightarrow> TimelineClip) \<Rightarrow> ref \<Rightarrow> real \<Rightarrow> ref list \<Rightarrow> real" where
  "cumulative_from h c t [] = 0"
| "cumulative_from h c t (item # items) =
     (if item = c then t else cumulative_from h c (t + duration_effective (h item)) items)"

definition cumulative_start_of :: "MainWindow \<Rightarrow> ref \<Rightarrow> real" where
  "cumulative_start_of w c = cumulative_from (heap w) c 0 (items_list w)"

text \<open>The sum of the effective durations of a list of clips.\<close>

definition total_duration :: "(ref \<Rightarrow> TimelineClip) \<Rightarrow> ref list \<Rightarrow> real" where
  "total_duration h rs = sum_list (map (\<lambda>r. duration_effective (h r)) rs)"

text \<open>\<open>list.index\<close>: \<open>None\<close> stands for the \<open>ValueError\<close> of a missing element.\<close>

fun index_of :: "'a list \<Rightarrow> 'a \<Rightarrow> nat option" where
  "index_of [] x = None"
| "index_of (y # ys) x = (if y = x then Some 0 else map_option Suc (index_of ys x))"

datatype py_error = ValueError

text \<open>
  The graphics items (graphics.py). \<open>ClipGraphicsItem._update_rect_width\<close> gives the
  width of an item from the effective duration of its clip; a new item is at \<open>x() = 0\<close>
  until it is positioned.
\<close>

definition GAP :: real where
  "GAP = 0"

definition MIN_CLIP_DURATION :: real where
  "MIN_CLIP_DURATION = 2 / 10"

definition rect_width :: "real \<Rightarrow> TimelineClip \<Rightarrow> real" where
  "rect_width pps c = max 120 (max (duration_effective c) MIN_CLIP_DURATION * pps)"

text \<open>
  \<open>TimelineView.repack_by_order\<close>: the items are sorted by \<open>x()\<close> (\<open>sorted\<close> is stable,
  as \<open>sort_key\<close> is), positioned one after the other from 0, and the new order of the
  clips is emitted with \<open>orderChanged\<close>, whose slot \<open>_on_visual_order_changed\<close>
  overwrites \<open>self.timeline\<close> with it.
\<close>

fun set_positions :: "(ref \<Rightarrow> real) \<Rightarrow> (ref \<Rightarrow> real) \<Rightarrow> real \<Rightarrow> ref list \<Rightarrow> ref \<Rightarrow> real" where
  "set_positions wd xs x [] = xs"
| "set_positions wd xs x (item # items) =
     set_positions wd (xs(item := x)) (x + wd item + GAP) items"

definition repack_by_order :: "MainWindow \<Rightarrow> MainWindow" where
  "repack_by_order w =
     (let ordered = sort_key (item_x w) (items_list w)
      in w\<lparr> item_x := set_positions (item_width w) (item_x w) 0 ordered,
            items_list := ordered,
            timeline := ordered \<rparr>)"

text \<open>
  \<open>split_at_playhead\<close>. The two new clips are built field by field from a fresh
  \<open>TimelineClip(clip.media)\<close>; the preview workers that \<open>_prepare_clip_previews\<close>
  queues run later, in the pool, and are not part of this step. The two new items are
  not positioned before \<open>repack_by_order\<close> sorts the items and replaces the timeline by
  their order.
\<close>

definition split_left :: "TimelineClip \<Rightarrow> real \<Rightarrow> TimelineClip" where
  "split_left c split_abs =
     (new_clip (media c))
       \<lparr> start := start c, end_time := Some split_abs, title := title c,
         title_size := title_size c, lut := lut c, transition := ''none'' \<rparr>"

definition split_right :: "TimelineClip \<Rightarrow> real \<Rightarrow> TimelineClip" where
  "split_right c split_abs =
     (new_clip (media c))
       \<lparr> start := split_abs, end_time := end_time c, title := title c,
         title_size := title_size c, lut := lut c, transition := transition c \<rparr>"

definition split_at_playhead :: "MainWindow \<Rightarrow> py_error + MainWindow" where
  "split_at_playhead w =
     (let gsec = playhead_sec w in
      case clip_at_global_time w gsec of
        None \<Rightarrow> Inr w
      | Some (c, local_sec) \<Rightarrow>
          if local_sec \<le> 5 / 100 \<or> local_sec \<ge> duration_effective (heap w c) - 5 / 100
          then Inr w
          else
            (let split_abs = start (heap w c) + local_sec;
                 l = next_ref w;
                 r = Suc (next_ref w);
                 h = (heap w)(l := split_left (heap w c) split_abs,
                              r := split_right (heap w c) split_abs)
             in case index_of (timeline w) c of
                  None \<Rightarrow> Inl ValueError
                | Some idx \<Rightarrow>
                    Inr (repack_by_order
                          (w\<lparr> heap := h,
                              timeline := take idx (timeline w) @ [l, r] @ drop (Suc idx) (timeline w),
                              items_list :=
                                concat (map (\<lambda>item. if item = c then [l, r] else [item]) (items_list w)),
                              item_x := (item_x w)(l := 0, r := 0),
                              item_width := (item_width w)
                                (l := rect_width (px_per_sec w) (h l),
                                 r := rect_width (px_per_sec w) (h r)),
                              next_ref := Suc (Suc (next_ref w)) \<rparr>))))"

text \<open>\<open>apply_speed_to_clip\<close>: the value of the spin box is guarded before it is stored.\<close>

definition apply_speed_to_clip :: "real \<Rightarrow> TimelineClip \<Rightarrow> TimelineClip" where
  "apply_speed_to_clip val c = c\<lparr> speed := (if val \<le> 0 then 1 else val) \<rparr>"

section \<open>Loading a clip record (models.py)\<close>

text \<open>
  The dict \<open>data\<close> of \<open>from_dict\<close>, with the types that \<open>to_dict\<close> writes; \<open>None\<close>
  is an absent key (for \<open>end\<close> and \<open>proxy_path\<close> also a JSON null). The entry
  \<open>speed\<close> is kept as a JSON value, since the source converts it with \<open>float(...)\<close>
  under \<open>try\<close>.
\<close>

datatype json = JNull | JBool bool | JNum real | JStr string | JOther

record clip_record =
  d_media_path :: string
  d_start :: "real option"
  d_end :: "real option"
  d_title :: "string option"
  d_title_size :: "int option"
  d_title_pos :: "string option"
  d_track :: "int option"
  d_lut :: "string option"
  d_transition :: "string option"
  d_proxy_path :: "string option"
  d_speed :: "json option"

text \<open>
  \<open>float(x)\<close>; \<open>None\<close> stands for the exception. The reading of a float from a string
  is a parameter.
\<close>

fun py_float :: "(string \<Rightarrow> real option) \<Rightarrow> json \<Rightarrow> real option" where
  "py_float parse (JNum r) = Some r"
| "py_float parse (JBool b) = Some (if b then 1 else 0)"
| "py_float parse (JStr s) = parse s"
| "py_float parse JNull = None"
| "py_float parse JOther = None"

definition get_default :: "'a option \<Rightarrow> 'a \<Rightarrow> 'a" where
  "get_default v d = (case v of None \<Rightarrow> d | Some x \<Rightarrow> x)"

text \<open>
  \<open>from_dict\<close>. \<open>path_exists\<close> is \<open>os.path.exists\<close> and \<open>make_media\<close> is the
  constructor \<open>MediaItem(path)\<close>, which probes the file.
\<close>

definition from_dict ::
  "(string \<Rightarrow> real option) \<Rightarrow> (string \<Rightarrow> bool) \<Rightarrow> (string \<Rightarrow> MediaItem) \<Rightarrow>
   clip_record \<Rightarrow> MediaItem list \<Rightarrow> TimelineClip option" where
  "from_dict parse path_exists make_media data media_items =
     (let media_path = d_media_path data;
          found = find (\<lambda>m. path m = media_path) media_items;
          found = (case found of
                     Some m \<Rightarrow> Some m
                   | None \<Rightarrow> if path_exists media_path then Some (make_media media_path) else None)
      in case found of
           None \<Rightarrow> None
         | Some m \<Rightarrow>
             Some ((new_clip m)
               \<lparr> start := get_default (d_start data) 0,
                 end_time := d_end data,
                 title := get_default (d_title data) [],
                 title_size := get_default (d_title_size data) 36,
                 title_pos := get_default (d_title_pos data) ''(w-text_w)/2'',
                 lut := get_default (d_lut data) ''none'',
                 transition := get_default (d_transition data) ''none'',
                 track := get_default (d_track data) 0,
                 speed := (case py_float parse (get_default (d_speed data) (JNum 1)) of
                             Some x \<Rightarrow> x
                           | None \<Rightarrow> 1),
                 proxy_path := d_proxy_path data \<rparr>))"

section \<open>The preview worker (preview\_worker.py)\<close>

text \<open>
  The worker holds its clip, the two caches shared with the window (dicts keyed by the
  asset path) and the signals it has emitted. The file system and the external tool are
  the environment: \<open>file_exists\<close> is \<open>os.path.exists\<close> at the time of the cache
  lookup, and the generators are the helpers of utils.py, which run the tool and report
  what they produced.
\<close>

datatype signal = Started | Done

record PreviewWorker =
  pw_clip :: TimelineClip                        \<comment> \<open>\<open>self.clip\<close>\<close>
  temp_root :: string
  thumbs_cache :: "string \<rightharpoonup> string list"
  wave_cache :: "string \<rightharpoonup> string"
  pw_proxy_path :: string                        \<comment> \<open>\<open>self.proxy_path\<close>, initially empty\<close>
  proxy_width :: int
  proxy_enabled :: bool
  emitted :: "signal list"

record preview_env =
  file_exists :: "string \<Rightarrow> bool"
  generate_thumbnails :: "string \<Rightarrow> string \<Rightarrow> real \<Rightarrow> real \<Rightarrow> string list"
  image_thumbnail :: "string \<Rightarrow> string \<Rightarrow> bool"
  generate_waveform :: "string \<Rightarrow> string \<Rightarrow> real \<Rightarrow> real \<Rightarrow> bool"
  generate_proxy :: "string \<Rightarrow> string \<Rightarrow> int \<Rightarrow> string option"   \<comment> \<open>\<open>None\<close>: it raises\<close>
  uuid_hex :: string

text \<open>Truth value of an optional string, and \<open>x or 0.0\<close> on an optional float.\<close>

definition truthy :: "string option \<Rightarrow> bool" where
  "truthy v = (case v of None \<Rightarrow> False | Some s \<Rightarrow> s \<noteq> [])"

definition or_opt :: "real option \<Rightarrow> real \<Rightarrow> real" where
  "or_opt v d = (case v of None \<Rightarrow> d | Some x \<Rightarrow> or_float x d)"

definition generate_thumbs_from_source ::
  "preview_env \<Rightarrow> MediaItem \<Rightarrow> string \<Rightarrow> string \<Rightarrow> real \<Rightarrow> real \<Rightarrow> string list" where
  "generate_thumbs_from_source env m source_path output_dir st dur =
     (if mtype m = ''video'' then generate_thumbnails env source_path output_dir st dur
      else if mtype m = ''image'' then
        (let output_path = path_join output_dir ''thumb_00.jpg''
         in if image_thumbnail env (path m) output_path then [output_path] else [])
      else [])"

definition generate_wave_from_source ::
  "preview_env \<Rightarrow> string \<Rightarrow> string \<Rightarrow> real \<Rightarrow> real \<Rightarrow> string option" where
  "generate_wave_from_source env source_path output_dir st dur =
     (let wave_path = path_join output_dir ''wave.png''
      in if generate_waveform env source_path wave_path st dur then Some wave_path else None)"

text \<open>The two cache lookups at the start of \<open>run\<close>.\<close>

definition lookup_caches :: "preview_env \<Rightarrow> PreviewWorker \<Rightarrow> PreviewWorker" where
  "lookup_caches env self =
     (let p = path (media (pw_clip self));
          self = (case wave_cache self p of
                    None \<Rightarrow> self
                  | Some cached_wave \<Rightarrow>
                      if file_exists env cached_wave
                      then self\<lparr> pw_clip := (pw_clip self)\<lparr> waveform_path := Some cached_wave \<rparr> \<rparr>
                      else self);
          self = (case thumbs_cache self p of
                    None \<Rightarrow> self
                  | Some cached_thumbs \<Rightarrow>
                      if list_all (file_exists env) cached_thumbs
                      then self\<lparr> pw_clip := (pw_clip self)\<lparr> thumb_paths := cached_thumbs \<rparr> \<rparr>
                      else self)
      in self)"

text \<open>The directory of this run, the proxy step, the time window and the source file.\<close>

definition clip_dir_of :: "preview_env \<Rightarrow> PreviewWorker \<Rightarrow> string" where
  "clip_dir_of env self = path_join (temp_root self) (''clip_'' @ uuid_hex env)"

definition proxy_step :: "preview_env \<Rightarrow> PreviewWorker \<Rightarrow> PreviewWorker" where
  "proxy_step env self =
     (if proxy_enabled self then
        (case generate_proxy env (path (media (pw_clip self))) (temp_root self) (proxy_width self) of
           None \<Rightarrow> self\<lparr> pw_proxy_path := [] \<rparr>
         | Some p \<Rightarrow> if p \<noteq> [] then self\<lparr> pw_proxy_path := p \<rparr> else self)
      else self)"

definition window_start :: "TimelineClip \<Rightarrow> real" where
  "window_start c = or_float (start c) 0"

definition window_dur :: "TimelineClip \<Rightarrow> real" where
  "window_dur c =
     (let st = or_float (start c) 0;
          en = (case end_time c of Some e \<Rightarrow> e | None \<Rightarrow> or_opt (duration (media c)) 0)
      in max (2 / 10) (if en > st then en - st else or_opt (duration (media c)) 0))"

definition source_of :: "PreviewWorker \<Rightarrow> string" where
  "source_of self =
     (if pw_proxy_path self \<noteq> [] then pw_proxy_path self else path (media (pw_clip self)))"

text \<open>
  The part of \<open>run\<close> after the early return: generation into a fresh directory. The
  thumbnail step, the waveform step and the attachment of the proxy are the three
  \<open>if\<close> statements of the source, in order.
\<close>

definition thumbs_step :: "preview_env \<Rightarrow> string \<Rightarrow> real \<Rightarrow> real \<Rightarrow> PreviewWorker \<Rightarrow> PreviewWorker" where
  "thumbs_step env clip_dir st effective_dur self =
     (if thumb_paths (pw_clip self) = [] then
        (let new_thumbs =
               generate_thumbs_from_source env (media (pw_clip self)) (source_of self)
                 clip_dir st effective_dur;
             self = self\<lparr> pw_clip := (pw_clip self)\<lparr> thumb_paths := new_thumbs \<rparr> \<rparr>
         in if new_thumbs \<noteq> []
            then self\<lparr> thumbs_cache := (thumbs_cache self)(path (media (pw_clip self)) \<mapsto> new_thumbs) \<rparr>
            else self)
      else self)"

definition wave_step :: "preview_env \<Rightarrow> string \<Rightarrow> real \<Rightarrow> real \<Rightarrow> PreviewWorker \<Rightarrow> PreviewWorker" where
  "wave_step env clip_dir st effective_dur self =
     (if \<not> truthy (waveform_path (pw_clip self))
         \<and> (mtype (media (pw_clip self)) = ''video'' \<or> mtype (media (pw_clip self)) = ''audio'')
      then
        (case generate_wave_from_source env (source_of self) clip_dir st effective_dur of
           None \<Rightarrow> self
         | Some wave_path \<Rightarrow>
             if wave_path \<noteq> [] then
               self\<lparr> pw_clip := (pw_clip self)\<lparr> waveform_path := Some wave_path \<rparr>,
                     wave_cache := (wave_cache self)(path (media (pw_clip self)) \<mapsto> wave_path) \<rparr>
             else self)
      else self)"

definition attach_proxy :: "PreviewWorker \<Rightarrow> PreviewWorker" where
  "attach_proxy self =
     (if pw_proxy_path self \<noteq> []
      then self\<lparr> pw_clip := (pw_clip self)\<lparr> proxy_path := Some (pw_proxy_path self) \<rparr> \<rparr>
      else self)"

definition regenerate :: "preview_env \<Rightarrow> PreviewWorker \<Rightarrow> PreviewWorker" where
  "regenerate env self =
     (let clip_dir = clip_dir_of env self;
          self = self\<lparr> pw_clip := (pw_clip self)\<lparr> preview_dir := Some clip_dir \<rparr> \<rparr>;
          self = proxy_step env self;
          st = window_start (pw_clip self);
          effective_dur = window_dur (pw_clip self);
          self = thumbs_step env clip_dir st effective_dur self;
          self = wave_step env clip_dir st effective_dur self;
          self = attach_proxy self
      in self)"

definition run :: "preview_env \<Rightarrow> PreviewWorker \<Rightarrow> PreviewWorker" where
  "run env self0 =
     (let self = self0\<lparr> emitted := emitted self0 @ [Started] \<rparr>;
          self = lookup_caches env self
      in if truthy (waveform_path (pw_clip self)) \<and> thumb_paths (pw_clip self) \<noteq> []
         then self\<lparr> emitted := emitted self @ [Done] \<rparr>
         else (let self = regenerate env self
               in self\<lparr> emitted := emitted self @ [Done] \<rparr>))"

section \<open>Example inputs\<close>

definition example_media :: "real \<Rightarrow> MediaItem" where
  "example_media d = \<lparr> path = ''a.mp4'', name = ''a.mp4'', mtype = ''video'', duration = Some d \<rparr>"

text \<open>
  Three clips of effective durations 5, 3 and 2, at references 0, 1 and 2, their items
  packed from 0 at 100 pixels per second.
\<close>

definition window_three :: MainWindow where
  "window_three =
     \<lparr> heap = (\<lambda>r. new_clip (example_media (if r = 0 then 5 else if r = 1 then 3 else 2))),
       timeline = [0, 1, 2], items_list = [0, 1, 2],
       item_x = (\<lambda>r. if r = 0 then 0 else if r = 1 then 500 else 800),
       item_width = (\<lambda>r. if r = 0 then 500 else if r = 1 then 300 else 200),
       px_per_sec = 100, playhead_sec = 55 / 10, next_ref = 3 \<rparr>"

text \<open>
  One clip of raw window \<open>[0, 10)\<close> played at speed 2.0 (effective duration 5), with the
  playhead at 2.0 seconds of timeline time, that is at 4.0 seconds of media time.
\<close>

definition window_speed2 :: MainWindow where
  "window_speed2 =
     \<lparr> heap = (\<lambda>r. (new_clip (example_media 10)) \<lparr> end_time := Some 10, speed := 2 \<rparr>),
       timeline = [0], items_list = [0], item_x = (\<lambda>r. 0), item_width = (\<lambda>r. 500),
       px_per_sec = 100, playhead_sec = 2, next_ref = 1 \<rparr>"

text \<open>One clip of raw window \<open>[0, 10)\<close> on track 1, with the playhead at 4.0 seconds.\<close>

definition window_track1 :: MainWindow where
  "window_track1 =
     \<lparr> heap = (\<lambda>r. (new_clip (example_media 10))
                   \<lparr> end_time := Some 10, title := ''Intro'', lut := ''warm.cube'',
                     transition := ''crossfade'', track := 1 \<rparr>),
       timeline = [0], items_list = [0], item_x = (\<lambda>r. 0), item_width = (\<lambda>r. 1000),
       px_per_sec = 100, playhead_sec = 4, next_ref = 1 \<rparr>"

text \<open>The three clips again, with the playhead at 9.0 seconds, inside the third clip.\<close>

definition window_three_late :: MainWindow where
  "window_three_late = window_three\<lparr> playhead_sec := 9 \<rparr>"

text \<open>A clip record as \<open>to_dict\<close> writes it, with the stored speed \<open>-2.0\<close>.\<close>

definition record_negative_speed :: clip_record where
  "record_negative_speed =
     \<lparr> d_media_path = ''a.mp4'', d_start = Some 0, d_end = Some 10, d_title = Some [],
       d_title_size = Some 36, d_title_pos = Some ''(w-text_w)/2'', d_track = Some 0,
       d_lut = Some ''none'', d_transition = Some ''none'', d_proxy_path = None,
       d_speed = Some (JNum (- 2)) \<rparr>"

text \<open>
  A clip that already carries a thumbnail and a waveform taken from the caches earlier,
  the caches still naming them, and an environment in which no file exists any more
  while every generator would succeed.
\<close>

definition worker_stale :: PreviewWorker where
  "worker_stale =
     \<lparr> pw_clip = (new_clip (example_media 10))
                   \<lparr> thumb_paths := [''old/thumb_00.jpg''], waveform_path := Some ''old/wave.png'' \<rparr>,
       temp_root = ''tmp'',
       thumbs_cache = [''a.mp4'' \<mapsto> [''old/thumb_00.jpg'']],
       wave_cache = [''a.mp4'' \<mapsto> ''old/wave.png''],
       pw_proxy_path = [], proxy_width = 640, proxy_enabled = False, emitted = [] \<rparr>"

definition env_gone :: preview_env where
  "env_gone =
     \<lparr> file_exists = (\<lambda>f. False),
       generate_thumbnails = (\<lambda>src dir st dur. [path_join dir ''thumb_00.jpg'']),
       image_thumbnail = (\<lambda>src out. True),
       generate_waveform = (\<lambda>src out st dur. True),
       generate_proxy = (\<lambda>src dir w. Some []),
       uuid_hex = ''0f'' \<rparr>"

text \<open>The same caches and environment, with a clip that carries no artifact yet.\<close>

definition worker_fresh :: PreviewWorker where
  "worker_fresh = worker_stale\<lparr> pw_clip := new_clip (example_media 10) \<rparr>"

text \<open>
  An exporter with two clips that use a named wipe transition and no crossfade, one with
  a crossfade on the first clip, and environments in which every command succeeds or
  every command fails with the diagnostic \<open>boom\<close>.
\<close>

definition exporter_wipe :: export_state where
  "exporter_wipe =
     \<lparr> exporter = \<lparr> ex_timeline = [(new_clip (example_media 10))\<lparr> transition := ''wipeleft'' \<rparr>,
                                    new_clip (example_media 10)],
                    bg_music = None, lut_dir = ''luts'' \<rparr>,
       trace = [] \<rparr>"

definition exporter_crossfade :: export_state where
  "exporter_crossfade =
     \<lparr> exporter = \<lparr> ex_timeline = [(new_clip (example_media 10))\<lparr> transition := ''crossfade'' \<rparr>,
                                    new_clip (example_media 10)],
                    bg_music = None, lut_dir = ''luts'' \<rparr>,
       trace = [] \<rparr>"

text \<open>
  Three clips: the first with an empty transition, the second with a crossfade, as a
  project file can hold them.
\<close>

definition exporter_unnamed :: export_state where
  "exporter_unnamed =
     \<lparr> exporter = \<lparr> ex_timeline = [(new_clip (example_media 10))\<lparr> transition := [] \<rparr>,
                                    (new_clip (example_media 10))\<lparr> transition := ''crossfade'' \<rparr>,
                                    new_clip (example_media 10)],
                    bg_music = None, lut_dir = ''luts'' \<rparr>,
       trace = [] \<rparr>"

definition env_ok :: export_env where
  "env_ok = \<lparr> run_cmd = (\<lambda>c. (0, [], [])), os_path_exists = (\<lambda>p. False),
              os_replace = (\<lambda>a b. True) \<rparr>"


section \<open>Properties of the effective duration\<close>

lemma or_float_zero [simp]: "or_float x 0 = x"
  by (simp add: or_float_def)

lemma base_duration_ge: "2 / 10 \<le> base_duration c"
  by (auto simp add: base_duration_def Let_def max_def split: option.split)

text \<open>
  C1. For a clip with positive speed, \<open>duration_effective\<close> is
  \<open>max(0.2, base / speed)\<close>, where \<open>base\<close> is 5.0 when the media has no probed
  duration and otherwise \<open>max(0.2, (end if set, else media duration) - start)\<close>;
  equivalently it is the effective duration of the same clip at speed 1.0, divided by
  the speed and floored at 0.2.
\<close>

theorem duration_effective_formula:
  assumes "0 < speed c"
  shows "duration_effective c =
           max (2 / 10)
             ((case duration (media c) of
                 None \<Rightarrow> 5
               | Some d \<Rightarrow> max (2 / 10) ((case end_time c of Some e \<Rightarrow> e | None \<Rightarrow> d) - start c))
              / speed c)
         \<and> duration_effective c =
             max (2 / 10) (duration_effective (c\<lparr>speed := 1\<rparr>) / speed c)"
proof -
  have b: "base_duration (c\<lparr>speed := 1\<rparr>) = base_duration c"
    by (auto simp add: base_duration_def Let_def split: option.split)
  have one: "duration_effective (c\<lparr>speed := 1\<rparr>) = base_duration c"
    using base_duration_ge [of c] by (simp add: duration_effective_def b max_def)
  have gen: "duration_effective c = max (2 / 10) (base_duration c / speed c)"
    using assms by (simp add: duration_effective_def Let_def)
  have unf: "base_duration c =
      (case duration (media c) of
         None \<Rightarrow> 5
       | Some d \<Rightarrow> max (2 / 10) ((case end_time c of Some e \<Rightarrow> e | None \<Rightarrow> d) - start c))"
    by (simp add: base_duration_def Let_def split: option.split)
  show ?thesis
    using gen one unf by simp
qed

theorem duration_effective_formula_witness:
  "0 < speed
     ((new_clip \<lparr> path = ''a.mp4'', name = ''a.mp4'', mtype = ''video'', duration = Some 10 \<rparr>)
        \<lparr> start := 2, end_time := Some 8, speed := 2 \<rparr>)
   \<and> duration_effective
     ((new_clip \<lparr> path = ''a.mp4'', name = ''a.mp4'', mtype = ''video'', duration = Some 10 \<rparr>)
        \<lparr> start := 2, end_time := Some 8, speed := 2 \<rparr>) = 3"
  using duration_effective_formula
    [of "(new_clip \<lparr> path = ''a.mp4'', name = ''a.mp4'', mtype = ''video'', duration = Some 10 \<rparr>)
        \<lparr> start := 2, end_time := Some 8, speed := 2 \<rparr>"]
  by (simp add: new_clip_def)

section \<open>Properties of the tempo chain\<close>

lemma floor_half_less: "(2::real) < r \<Longrightarrow> nat \<lfloor>r / 2\<rfloor> < nat \<lfloor>r\<rfloor>"
  by linarith

lemma floor_inv_double_less:
  assumes "0 < (r::real)" "r < 5 / 10"
  shows "nat \<lfloor>1 / (r * 2)\<rfloor> < nat \<lfloor>1 / r\<rfloor>"
proof -
  from assms have "(2::real) < 1 / r" by (simp add: field_simps)
  from floor_half_less [OF this] show ?thesis by (simp add: field_simps)
qed

lemma stages_ok_snoc: "stages_ok (ch @ [st]) = (stages_ok ch \<and> 5 / 10 \<le> stage_ratio st \<and> stage_ratio st \<le> 2)"
  by (auto simp add: stages_ok_def)

lemma halve_loop_total:
  "\<exists>r' ch'. halve_loop r ch = Some (r', ch') \<and> r' \<le> 2 \<and> (2 < r \<longrightarrow> 1 < r')
     \<and> (r \<le> 2 \<longrightarrow> r' = r)
     \<and> prod_list (map stage_ratio ch') * r' = prod_list (map stage_ratio ch) * r
     \<and> (stages_ok ch \<longrightarrow> stages_ok ch')"
proof (induction r arbitrary: ch rule: measure_induct_rule [where f = "\<lambda>r. nat \<lfloor>r\<rfloor>"])
  case (less r)
  show ?case
  proof (cases "2 < r")
    case False
    then show ?thesis by (subst halve_loop.simps) auto
  next
    case True
    let ?ch = "ch @ [[S ''atempo=2.0'']]"
    from less [OF floor_half_less [OF True], of ?ch]
    obtain r' ch' where h: "halve_loop (r / 2) ?ch = Some (r', ch')" "r' \<le> 2"
      "2 < r / 2 \<longrightarrow> 1 < r'" "r / 2 \<le> 2 \<longrightarrow> r' = r / 2"
      "prod_list (map stage_ratio ch') * r' = prod_list (map stage_ratio ?ch) * (r / 2)"
      "stages_ok ?ch \<longrightarrow> stages_ok ch'"
      by blast
    have "halve_loop r ch = Some (r', ch')"
      using True h(1) by (subst halve_loop.simps) simp
    moreover have "1 < r'" using h(3,4) True by (cases "2 < r / 2") auto
    moreover have "stages_ok ch \<longrightarrow> stages_ok ch'" using h(6) by (simp add: stages_ok_snoc)
    ultimately show ?thesis using h(2,5) True by auto
  qed
qed

lemma double_loop_total:
  "0 < r \<Longrightarrow> \<exists>r' ch'. double_loop r ch = Some (r', ch') \<and> 5 / 10 \<le> r' \<and> (r < 5 / 10 \<longrightarrow> r' < 1)
     \<and> (5 / 10 \<le> r \<longrightarrow> r' = r)
     \<and> prod_list (map stage_ratio ch') * r' = prod_list (map stage_ratio ch) * r
     \<and> (stages_ok ch \<longrightarrow> stages_ok ch')"
proof (induction r arbitrary: ch rule: measure_induct_rule [where f = "\<lambda>r. nat \<lfloor>1 / r\<rfloor>"])
  case (less r)
  show ?case
  proof (cases "r < 5 / 10")
    case False
    then show ?thesis by (subst double_loop.simps) auto
  next
    case True
    let ?ch = "ch @ [[S ''atempo=0.5'']]"
    have pos: "0 < r * 2" using less.prems by simp
    from less.IH [OF floor_inv_double_less [OF less.prems True] pos, of ?ch]
    obtain r' ch' where h: "double_loop (r * 2) ?ch = Some (r', ch')" "5 / 10 \<le> r'"
      "r * 2 < 5 / 10 \<longrightarrow> r' < 1" "5 / 10 \<le> r * 2 \<longrightarrow> r' = r * 2"
      "prod_list (map stage_ratio ch') * r' = prod_list (map stage_ratio ?ch) * (r * 2)"
      "stages_ok ?ch \<longrightarrow> stages_ok ch'"
      by blast
    have "double_loop r ch = Some (r', ch')"
      using True h(1) by (subst double_loop.simps) simp
    moreover have "r' < 1" using h(3,4) True by (cases "r * 2 < 5 / 10") auto
    moreover have "stages_ok ch \<longrightarrow> stages_ok ch'" using h(6) by (simp add: stages_ok_snoc)
    ultimately show ?thesis using h(2,5) True by auto
  qed
qed

lemma atempo_stages_general:
  "\<exists>stages. atempo_stages v = Some stages
      \<and> (\<forall>st \<in> set stages. 5 / 10 \<le> stage_ratio st \<and> stage_ratio st \<le> 2)
      \<and> prod_list (map stage_ratio stages) = (if v \<le> 0 then 1 else v)"
proof -
  define v' where "v' = (if v \<le> 0 then 1 else v)"
  have pos: "0 < v'" by (simp add: v'_def)
  obtain r1 ch1 where h1: "halve_loop v' [] = Some (r1, ch1)" "r1 \<le> 2" "2 < v' \<longrightarrow> 1 < r1"
      "v' \<le> 2 \<longrightarrow> r1 = v'" "prod_list (map stage_ratio ch1) * r1 = prod_list (map stage_ratio []) * v'"
      "stages_ok [] \<longrightarrow> stages_ok ch1"
    using halve_loop_total [of v' "[]"] by blast
  have r1pos: "0 < r1" using h1(3,4) pos by (cases "2 < v'") auto
  obtain r2 ch2 where h2: "double_loop r1 ch1 = Some (r2, ch2)" "5 / 10 \<le> r2"
      "r1 < 5 / 10 \<longrightarrow> r2 < 1" "5 / 10 \<le> r1 \<longrightarrow> r2 = r1"
      "prod_list (map stage_ratio ch2) * r2 = prod_list (map stage_ratio ch1) * r1"
      "stages_ok ch1 \<longrightarrow> stages_ok ch2"
    using double_loop_total [OF r1pos, of ch1] by blast
  have res: "atempo_stages v = Some (ch2 @ [[S ''atempo='', F6 r2]])"
    using h1(1) h2(1) by (simp add: atempo_stages_def v'_def)
  have r2le: "r2 \<le> 2" using h2(3,4) h1(2) by (cases "r1 < 5 / 10") auto
  have "stages_ok ch2" using h1(6) h2(6) by (simp add: stages_ok_def)
  then have "stages_ok (ch2 @ [[S ''atempo='', F6 r2]])"
    using h2(2) r2le by (simp add: stages_ok_snoc)
  then have mem: "\<forall>st \<in> set (ch2 @ [[S ''atempo='', F6 r2]]). 5 / 10 \<le> stage_ratio st \<and> stage_ratio st \<le> 2"
    by (simp add: stages_ok_def)
  have pr: "prod_list (map stage_ratio (ch2 @ [[S ''atempo='', F6 r2]])) = v'"
    using h1(5) h2(5) by simp
  show ?thesis using res mem pr unfolding v'_def by blast
qed

lemma atempo_stages_5: "atempo_stages 5 = Some [[S ''atempo=2.0''], [S ''atempo=2.0''], [S ''atempo='', F6 (125 / 100)]]"
  by (simp add: atempo_stages_def halve_loop.simps double_loop.simps)

lemma atempo_stages_02: "atempo_stages (2 / 10) = Some [[S ''atempo=0.5''], [S ''atempo=0.5''], [S ''atempo='', F6 (8 / 10)]]"
  by (simp add: atempo_stages_def halve_loop.simps double_loop.simps)

lemma atempo_stages_1: "atempo_stages 1 = Some [[S ''atempo='', F6 1]]"
  by (simp add: atempo_stages_def halve_loop.simps double_loop.simps)

lemma atempo_ratios_5: "map_option (map stage_ratio) (atempo_stages 5) = Some [2, 2, 125 / 100]"
  by (simp add: atempo_stages_5)

lemma atempo_ratios_02:
  "map_option (map stage_ratio) (atempo_stages (2 / 10)) = Some [5 / 10, 5 / 10, 8 / 10]"
  by (simp only: atempo_stages_02) simp

lemma atempo_ratios_1: "map_option (map stage_ratio) (atempo_stages 1) = Some [1]"
  by (simp add: atempo_stages_1)

text \<open>
  C2. For every input speed \<open>v\<close> the tempo chain returns, every emitted stage has a ratio
  in \<open>[0.5, 2.0]\<close>, and the product of the ratios is \<open>v\<close> (1.0 for a non-positive
  \<open>v\<close>); the last stage carries the leftover ratio under the six-decimal format.
  For 5.0 the ratios are 2, 2, 1.25; for 0.2 they are 0.5, 0.5, 0.8; for 1.0 the single
  ratio is 1.
\<close>

theorem atempo_chain_decomposition:
  "(\<exists>stages. atempo_stages v = Some stages
      \<and> atempo_chain v = Some (join_with [S '',''] stages)
      \<and> (\<forall>st \<in> set stages. 5 / 10 \<le> stage_ratio st \<and> stage_ratio st \<le> 2)
      \<and> prod_list (map stage_ratio stages) = (if v \<le> 0 then 1 else v))
   \<and> map_option (map stage_ratio) (atempo_stages 5) = Some [2, 2, 125 / 100]
   \<and> map_option (map stage_ratio) (atempo_stages (2 / 10)) = Some [5 / 10, 5 / 10, 8 / 10]
   \<and> map_option (map stage_ratio) (atempo_stages 1) = Some [1]"
proof (intro conjI)
  obtain stages where st: "atempo_stages v = Some stages"
      "\<forall>st \<in> set stages. 5 / 10 \<le> stage_ratio st \<and> stage_ratio st \<le> 2"
      "prod_list (map stage_ratio stages) = (if v \<le> 0 then 1 else v)"
    using atempo_stages_general [of v] by blast
  have "atempo_chain v = Some (join_with [S '',''] stages)"
    using st(1) by (simp add: atempo_chain_def)
  with st show "\<exists>stages. atempo_stages v = Some stages
      \<and> atempo_chain v = Some (join_with [S '',''] stages)
      \<and> (\<forall>st \<in> set stages. 5 / 10 \<le> stage_ratio st \<and> stage_ratio st \<le> 2)
      \<and> prod_list (map stage_ratio stages) = (if v \<le> 0 then 1 else v)"
    by blast
next
  show "map_option (map stage_ratio) (atempo_stages 5) = Some [2, 2, 125 / 100]"
    by (rule atempo_ratios_5)
next
  show "map_option (map stage_ratio) (atempo_stages (2 / 10)) = Some [5 / 10, 5 / 10, 8 / 10]"
    by (rule atempo_ratios_02)
next
  show "map_option (map stage_ratio) (atempo_stages 1) = Some [1]"
    by (rule atempo_ratios_1)
qed

theorem atempo_chain_decomposition_witness:
  "\<exists>stages. atempo_stages 5 = Some stages
      \<and> (\<forall>st \<in> set stages. 5 / 10 \<le> stage_ratio st \<and> stage_ratio st \<le> 2)
      \<and> prod_list (map stage_ratio stages) = 5"
proof -
  from atempo_chain_decomposition [of 5]
  have "\<exists>stages. atempo_stages 5 = Some stages
      \<and> atempo_chain 5 = Some (join_with [S '',''] stages)
      \<and> (\<forall>st \<in> set stages. 5 / 10 \<le> stage_ratio st \<and> stage_ratio st \<le> 2)
      \<and> prod_list (map stage_ratio stages) = (if (5::real) \<le> 0 then 1 else 5)"
    by (rule conjunct1)
  then show ?thesis by auto
qed

section \<open>Properties of the sequencer\<close>

lemma duration_effective_pos: "0 < duration_effective c"
proof -
  have "(2::real) / 10 \<le> duration_effective c"
    by (simp add: duration_effective_def Let_def)
  then show ?thesis by simp
qed

lemma total_duration_Nil [simp]: "total_duration h [] = 0"
  by (simp add: total_duration_def)

lemma total_duration_Cons [simp]:
  "total_duration h (r # rs) = duration_effective (h r) + total_duration h rs"
  by (simp add: total_duration_def)

lemma total_duration_nonneg: "0 \<le> total_duration h rs"
proof (induction rs)
  case Nil
  show ?case by simp
next
  case (Cons r rs)
  then show ?case using duration_effective_pos [of "h r"] by simp
qed

lemma clip_at_from_None:
  "(clip_at_from h sec t items = None) = (items = [] \<or> t + total_duration h items \<le> sec)"
proof (induction items arbitrary: t)
  case Nil
  show ?case by simp
next
  case (Cons item items)
  show ?case
    using Cons.IH [of "t + duration_effective (h item)"]
      total_duration_nonneg [of h items] duration_effective_pos [of "h item"]
    by (cases items) (auto simp add: Let_def)
qed

lemma clip_at_from_Some:
  "(clip_at_from h sec t items = Some (c, off)) =
     (\<exists>pre post. items = pre @ c # post \<and> off = sec - (t + total_duration h pre)
        \<and> sec < t + total_duration h pre + duration_effective (h c)
        \<and> (pre = [] \<or> t + total_duration h pre \<le> sec))"
proof (induction items arbitrary: t)
  case Nil
  show ?case by simp
next
  case (Cons item items)
  let ?d = "duration_effective (h item)"
  show ?case
  proof (cases "sec < t + ?d")
    case True
    have "(\<exists>pre post. item # items = pre @ c # post \<and> off = sec - (t + total_duration h pre)
        \<and> sec < t + total_duration h pre + duration_effective (h c)
        \<and> (pre = [] \<or> t + total_duration h pre \<le> sec)) = (item = c \<and> off = sec - t)"
    proof
      assume "\<exists>pre post. item # items = pre @ c # post \<and> off = sec - (t + total_duration h pre)
        \<and> sec < t + total_duration h pre + duration_effective (h c)
        \<and> (pre = [] \<or> t + total_duration h pre \<le> sec)"
      then obtain pre post where p: "item # items = pre @ c # post"
        "off = sec - (t + total_duration h pre)"
        "pre = [] \<or> t + total_duration h pre \<le> sec" by blast
      show "item = c \<and> off = sec - t"
      proof (cases pre)
        case Nil
        with p show ?thesis by simp
      next
        case (Cons x xs)
        with p(1) have "x = item" by simp
        with Cons p(3) have "t + ?d + total_duration h xs \<le> sec" by simp
        with True total_duration_nonneg [of h xs] show ?thesis by simp
      qed
    next
      assume a: "item = c \<and> off = sec - t"
      with True have "item # items = [] @ c # items \<and> off = sec - (t + total_duration h [])
        \<and> sec < t + total_duration h [] + duration_effective (h c)" by simp
      then show "\<exists>pre post. item # items = pre @ c # post \<and> off = sec - (t + total_duration h pre)
        \<and> sec < t + total_duration h pre + duration_effective (h c)
        \<and> (pre = [] \<or> t + total_duration h pre \<le> sec)" by blast
    qed
    with True show ?thesis by (auto simp add: Let_def)
  next
    case False
    have "(\<exists>pre post. item # items = pre @ c # post \<and> off = sec - (t + total_duration h pre)
        \<and> sec < t + total_duration h pre + duration_effective (h c)
        \<and> (pre = [] \<or> t + total_duration h pre \<le> sec))
      = (\<exists>pre post. items = pre @ c # post \<and> off = sec - (t + ?d + total_duration h pre)
        \<and> sec < t + ?d + total_duration h pre + duration_effective (h c)
        \<and> (pre = [] \<or> t + ?d + total_duration h pre \<le> sec))" (is "?L = ?R")
    proof
      assume ?L
      then obtain pre post where p: "item # items = pre @ c # post"
        "off = sec - (t + total_duration h pre)"
        "sec < t + total_duration h pre + duration_effective (h c)"
        "pre = [] \<or> t + total_duration h pre \<le> sec" by blast
      show ?R
      proof (cases pre)
        case Nil
        with p False show ?thesis by simp
      next
        case (Cons x xs)
        with p(1) have x: "x = item" "items = xs @ c # post" by simp_all
        from p(2,3,4) Cons x(1)
        have "off = sec - (t + ?d + total_duration h xs)"
          "sec < t + ?d + total_duration h xs + duration_effective (h c)"
          "xs = [] \<or> t + ?d + total_duration h xs \<le> sec"
          by (simp_all add: algebra_simps)
        with x(2) show ?thesis by blast
      qed
    next
      assume ?R
      then obtain pre post where p: "items = pre @ c # post"
        "off = sec - (t + ?d + total_duration h pre)"
        "sec < t + ?d + total_duration h pre + duration_effective (h c)"
        "pre = [] \<or> t + ?d + total_duration h pre \<le> sec" by blast
      have le: "t + ?d + total_duration h pre \<le> sec"
        using p(4) False by (cases "pre = []") auto
      have "item # items = (item # pre) @ c # post" using p(1) by simp
      moreover have "off = sec - (t + total_duration h (item # pre))"
        using p(2) by (simp add: algebra_simps)
      moreover have "sec < t + total_duration h (item # pre) + duration_effective (h c)"
        using p(3) by (simp add: algebra_simps)
      moreover have "t + total_duration h (item # pre) \<le> sec"
        using le by (simp add: algebra_simps)
      ultimately show ?L by blast
    qed
    with False Cons.IH [of "t + ?d"] show ?thesis by (simp add: Let_def)
  qed
qed

lemma cumulative_from_eq:
  "cumulative_from h c t items =
     (if c \<in> set items then t + total_duration h (takeWhile (\<lambda>x. x \<noteq> c) items) else 0)"
  by (induction items arbitrary: t) (auto simp add: algebra_simps)

text \<open>
  C6. \<open>_clip_at_global_time(sec)\<close> returns the first clip whose accumulated span of
  effective durations contains \<open>sec\<close>, with the local offset \<open>sec\<close> minus the sum of
  the effective durations of the clips before it; it returns nothing when \<open>sec\<close> is at
  or past the total effective duration. \<open>_cumulative_start_of(clip)\<close> is the sum of
  the effective durations of the clips strictly before the clip, and 0.0 when the clip
  is first or not in the timeline.
\<close>

theorem sequencer_locate:
  "(clip_at_global_time w sec = Some (c, off)
      \<longleftrightarrow> (\<exists>pre post. items_list w = pre @ c # post
             \<and> off = sec - total_duration (heap w) pre
             \<and> sec < total_duration (heap w) pre + duration_effective (heap w c)
             \<and> (pre = [] \<or> total_duration (heap w) pre \<le> sec)))
   \<and> (total_duration (heap w) (items_list w) \<le> sec \<longrightarrow> clip_at_global_time w sec = None)
   \<and> cumulative_start_of w c =
        (if c \<in> set (items_list w)
         then total_duration (heap w) (takeWhile (\<lambda>x. x \<noteq> c) (items_list w)) else 0)
   \<and> (\<forall>rest. items_list w = c # rest \<longrightarrow> cumulative_start_of w c = 0)"
proof (intro conjI)
  show "clip_at_global_time w sec = Some (c, off)
      \<longleftrightarrow> (\<exists>pre post. items_list w = pre @ c # post
             \<and> off = sec - total_duration (heap w) pre
             \<and> sec < total_duration (heap w) pre + duration_effective (heap w c)
             \<and> (pre = [] \<or> total_duration (heap w) pre \<le> sec))"
    using clip_at_from_Some [of "heap w" sec 0 "items_list w" c off]
    by (simp add: clip_at_global_time_def)
next
  show "total_duration (heap w) (items_list w) \<le> sec \<longrightarrow> clip_at_global_time w sec = None"
    using clip_at_from_None [of "heap w" sec 0 "items_list w"]
    by (simp add: clip_at_global_time_def)
next
  show "cumulative_start_of w c =
        (if c \<in> set (items_list w)
         then total_duration (heap w) (takeWhile (\<lambda>x. x \<noteq> c) (items_list w)) else 0)"
    by (simp add: cumulative_start_of_def cumulative_from_eq)
next
  show "\<forall>rest. items_list w = c # rest \<longrightarrow> cumulative_start_of w c = 0"
    by (simp add: cumulative_start_of_def)
qed

lemma de3: "duration_effective (heap window_three r) = (if r = 0 then 5 else if r = 1 then 3 else 2)"
  by (simp add: window_three_def duration_effective_def base_duration_def new_clip_def example_media_def)

theorem sequencer_locate_witness:
  "clip_at_global_time window_three (55 / 10) = Some (1, 5 / 10)
   \<and> clip_at_global_time window_three 10 = None
   \<and> cumulative_start_of window_three 2 = 8
   \<and> cumulative_start_of window_three 0 = 0"
proof (intro conjI)
  have "items_list window_three = [0] @ 1 # [2]
        \<and> (5 / 10 :: real) = 55 / 10 - total_duration (heap window_three) [0]
        \<and> 55 / 10 < total_duration (heap window_three) [0]
              + duration_effective (heap window_three 1)
        \<and> ([0::nat] = [] \<or> total_duration (heap window_three) [0] \<le> 55 / 10)"
    by (simp add: de3) (simp add: window_three_def)
  then have "\<exists>pre post. items_list window_three = pre @ 1 # post
        \<and> (5 / 10 :: real) = 55 / 10 - total_duration (heap window_three) pre
        \<and> 55 / 10 < total_duration (heap window_three) pre
              + duration_effective (heap window_three 1)
        \<and> (pre = [] \<or> total_duration (heap window_three) pre \<le> 55 / 10)"
    by blast
  with sequencer_locate [of window_three "55 / 10" 1 "5 / 10"]
  show "clip_at_global_time window_three (55 / 10) = Some (1, 5 / 10)" by blast
next
  have il: "items_list window_three = [0, 1, 2]" by (simp add: window_three_def)
  have "total_duration (heap window_three) (items_list window_three) \<le> 10"
    by (simp add: il de3)
  with sequencer_locate [of window_three 10 0 0]
  show "clip_at_global_time window_three 10 = None" by blast
next
  have il: "items_list window_three = [0, 1, 2]" by (simp add: window_three_def)
  from sequencer_locate [of window_three 0 2 0]
  have "cumulative_start_of window_three 2 =
        (if 2 \<in> set (items_list window_three)
         then total_duration (heap window_three) (takeWhile (\<lambda>x. x \<noteq> 2) (items_list window_three))
         else 0)" by blast
  then show "cumulative_start_of window_three 2 = 8" by (simp add: il de3)
next
  have il: "items_list window_three = 0 # [1, 2]" by (simp add: window_three_def)
  from sequencer_locate [of window_three 0 0 0]
  have "\<forall>rest. items_list window_three = 0 # rest \<longrightarrow> cumulative_start_of window_three 0 = 0"
    by blast
  with il show "cumulative_start_of window_three 0 = 0" by blast
qed

section \<open>Splitting at the playhead\<close>

lemma de_speed2: "duration_effective (heap window_speed2 r) = 5"
  by (simp add: window_speed2_def duration_effective_def base_duration_def new_clip_def example_media_def)

text \<open>
  C3. \<open>split_at_playhead\<close> on a clip of raw window \<open>[0, 10)\<close> at speed 2.0 with the
  playhead at local offset 2.0: the offset is 4.0 seconds of raw media time (start plus
  offset times speed, the second conjunct), but the code cuts at \<open>clip.start +
  local_sec = 2.0\<close>, so the two clips have the windows \<open>[0, 2)\<close> and \<open>[2, 10)\<close>; both
  are at the default speed 1.0. Their items are repacked from 0 with the widths of 2 and
  8 seconds.
\<close>

theorem split_at_playhead_speed2:
  "split_at_playhead window_speed2 =
     Inr \<lparr> heap = (heap window_speed2)
                    (1 := (new_clip (example_media 10))
                            \<lparr> start := 0, end_time := Some 2, transition := ''none'' \<rparr>,
                     2 := (new_clip (example_media 10))
                            \<lparr> start := 2, end_time := Some 10, transition := ''none'' \<rparr>),
           timeline = [1, 2], items_list = [1, 2],
           item_x = (item_x window_speed2)(1 := 0, 2 := 200),
           item_width = (item_width window_speed2)(1 := 200, 2 := 800),
           px_per_sec = 100, playhead_sec = 2, next_ref = 3 \<rparr>
   \<and> start (heap window_speed2 0) + 2 * speed (heap window_speed2 0) = 4"
proof -
  have il: "items_list window_speed2 = [0]" by (simp add: window_speed2_def)
  have loc: "clip_at_global_time window_speed2 2 = Some (0, 2)"
    by (simp add: clip_at_global_time_def il de_speed2)
  have ph: "playhead_sec window_speed2 = 2" by (simp add: window_speed2_def)
  show ?thesis
    by (simp add: split_at_playhead_def ph loc de_speed2 Let_def)
       (simp add: window_speed2_def split_left_def split_right_def new_clip_def numeral_2_eq_2
          repack_by_order_def rect_width_def duration_effective_def base_duration_def
          example_media_def MIN_CLIP_DURATION_def GAP_def Let_def)
qed

lemma de_track1: "duration_effective (heap window_track1 r) = 10"
  by (simp add: window_track1_def duration_effective_def base_duration_def new_clip_def example_media_def)

lemma loc_track1: "clip_at_global_time window_track1 4 = Some (0, 4)"
proof -
  have il: "items_list window_track1 = [0]" by (simp add: window_track1_def)
  show ?thesis by (simp add: clip_at_global_time_def il de_track1)
qed

text \<open>
  A clip on track 1 is split at 4.0 seconds: both new clips are on track 0, the default
  of the constructor, since the split copies title, title size and LUT only.
\<close>

theorem split_track_counterexample:
  "split_at_playhead window_track1 =
     Inr (window_track1
           \<lparr> heap := (heap window_track1)
                      (1 := split_left (heap window_track1 0) 4,
                       2 := split_right (heap window_track1 0) 4),
             timeline := [1, 2], items_list := [1, 2],
             item_x := (item_x window_track1)(1 := 0, 2 := 400),
             item_width := (item_width window_track1)(1 := 400, 2 := 600),
             next_ref := 3 \<rparr>)
   \<and> track (heap window_track1 0) = 1
   \<and> track (split_left (heap window_track1 0) 4) = 0
   \<and> track (split_right (heap window_track1 0) 4) = 0"
proof -
  have ph: "playhead_sec window_track1 = 4" by (simp add: window_track1_def)
  have a: "split_at_playhead window_track1 =
     Inr (window_track1
           \<lparr> heap := (heap window_track1)
                      (1 := split_left (heap window_track1 0) 4,
                       2 := split_right (heap window_track1 0) 4),
             timeline := [1, 2], items_list := [1, 2],
             item_x := (item_x window_track1)(1 := 0, 2 := 400),
             item_width := (item_width window_track1)(1 := 400, 2 := 600),
             next_ref := 3 \<rparr>)"
    by (simp add: split_at_playhead_def ph loc_track1 de_track1 Let_def)
       (simp add: window_track1_def new_clip_def numeral_2_eq_2 numeral_3_eq_3
          repack_by_order_def rect_width_def duration_effective_def base_duration_def
          example_media_def MIN_CLIP_DURATION_def GAP_def Let_def split_left_def split_right_def)
  have b: "track (heap window_track1 0) = 1"
    by (simp add: window_track1_def)
  have c: "track (split_left (heap window_track1 0) 4) = 0"
    "track (split_right (heap window_track1 0) 4) = 0"
    by (simp_all add: split_left_def split_right_def new_clip_def)
  show ?thesis using a b c by simp
qed

lemma set_split_items:
  "set (concat (map (\<lambda>item. if item = c then [l, r] else [item]) items))
     = (if c \<in> set items then {l, r} else {}) \<union> (set items - {c})"
  by (induction items) auto

lemma clip_at_global_time_mem:
  assumes "clip_at_global_time w sec = Some (c, off)"
  shows "c \<in> set (items_list w)"
proof -
  from assms obtain pre post where "items_list w = pre @ c # post"
    unfolding clip_at_global_time_def clip_at_from_Some by blast
  then show ?thesis by simp
qed

lemma repack_fields:
  "heap (repack_by_order w) = heap w"
  "timeline (repack_by_order w) = sort_key (item_x w) (items_list w)"
  "items_list (repack_by_order w) = sort_key (item_x w) (items_list w)"
  "next_ref (repack_by_order w) = next_ref w"
  "playhead_sec (repack_by_order w) = playhead_sec w"
  by (simp_all add: repack_by_order_def Let_def)

text \<open>
  C10 (amended). When \<open>split_at_playhead\<close> splits a clip, the timeline afterwards is
  the list of the repacked items and holds the two new clips and the clips of the other
  items; both new clips inherit the title, the title size and the LUT of the original
  clip, and both are on track 0 whatever the track of the original; the left clip's
  transition is \<open>none\<close> and the right clip inherits the original's transition;
  thumbnail, waveform and preview paths of both start empty.
\<close>

theorem split_inheritance:
  assumes "clip_at_global_time w (playhead_sec w) = Some (c, loc)"
    and "5 / 100 < loc"
    and "loc < duration_effective (heap w c) - 5 / 100"
    and "index_of (timeline w) c = Some idx"
  shows "\<exists>w'. split_at_playhead w = Inr w'
      \<and> timeline w' = items_list w'
      \<and> set (timeline w') = {next_ref w, Suc (next_ref w)} \<union> (set (items_list w) - {c})
      \<and> title (heap w' (next_ref w)) = title (heap w c)
      \<and> title (heap w' (Suc (next_ref w))) = title (heap w c)
      \<and> title_size (heap w' (next_ref w)) = title_size (heap w c)
      \<and> title_size (heap w' (Suc (next_ref w))) = title_size (heap w c)
      \<and> lut (heap w' (next_ref w)) = lut (heap w c)
      \<and> lut (heap w' (Suc (next_ref w))) = lut (heap w c)
      \<and> track (heap w' (next_ref w)) = 0
      \<and> track (heap w' (Suc (next_ref w))) = 0
      \<and> transition (heap w' (next_ref w)) = ''none''
      \<and> transition (heap w' (Suc (next_ref w))) = transition (heap w c)
      \<and> thumb_paths (heap w' (next_ref w)) = []
      \<and> thumb_paths (heap w' (Suc (next_ref w))) = []
      \<and> waveform_path (heap w' (next_ref w)) = None
      \<and> waveform_path (heap w' (Suc (next_ref w))) = None
      \<and> preview_dir (heap w' (next_ref w)) = None
      \<and> preview_dir (heap w' (Suc (next_ref w))) = None"
proof -
  have m: "c \<in> set (items_list w)" using assms(1) by (rule clip_at_global_time_mem)
  have st: "set (items_list w) \<inter> {item. item \<noteq> c} = set (items_list w) - {c}"
    by auto
  show ?thesis
    using assms m
    by (simp add: split_at_playhead_def Let_def repack_fields set_split_items
          split_left_def split_right_def new_clip_def st)
qed

theorem split_inheritance_witness:
  "\<exists>w'. split_at_playhead window_track1 = Inr w'
      \<and> set (timeline w') = {1, 2}
      \<and> title (heap w' 1) = ''Intro'' \<and> title (heap w' 2) = ''Intro''
      \<and> lut (heap w' 1) = ''warm.cube'' \<and> lut (heap w' 2) = ''warm.cube''
      \<and> track (heap w' 1) = 0 \<and> track (heap w' 2) = 0
      \<and> transition (heap w' 1) = ''none'' \<and> transition (heap w' 2) = ''crossfade''"
proof -
  have ph: "playhead_sec window_track1 = 4" by (simp add: window_track1_def)
  have 1: "clip_at_global_time window_track1 (playhead_sec window_track1) = Some (0, 4)"
    by (simp add: ph loc_track1)
  have 2: "(5::real) / 100 < 4" by simp
  have 3: "(4::real) < duration_effective (heap window_track1 0) - 5 / 100"
    by (simp add: de_track1)
  have 4: "index_of (timeline window_track1) 0 = Some 0"
    by (simp add: window_track1_def)
  have nr: "next_ref window_track1 = 1" "items_list window_track1 = [0]"
    by (simp_all add: window_track1_def)
  have old: "title (heap window_track1 0) = ''Intro''" "lut (heap window_track1 0) = ''warm.cube''"
    "transition (heap window_track1 0) = ''crossfade''"
    by (simp_all add: window_track1_def)
  from split_inheritance [OF 1 2 3 4]
  obtain w' where h: "split_at_playhead window_track1 = Inr w'"
    "set (timeline w') = {next_ref window_track1, Suc (next_ref window_track1)}
        \<union> (set (items_list window_track1) - {0})"
    "title (heap w' (next_ref window_track1)) = title (heap window_track1 0)"
    "title (heap w' (Suc (next_ref window_track1))) = title (heap window_track1 0)"
    "lut (heap w' (next_ref window_track1)) = lut (heap window_track1 0)"
    "lut (heap w' (Suc (next_ref window_track1))) = lut (heap window_track1 0)"
    "track (heap w' (next_ref window_track1)) = 0"
    "track (heap w' (Suc (next_ref window_track1))) = 0"
    "transition (heap w' (next_ref window_track1)) = ''none''"
    "transition (heap w' (Suc (next_ref window_track1))) = transition (heap window_track1 0)"
    by blast
  have s2: "Suc 1 = 2" by simp
  show ?thesis
    using h unfolding nr old s2 by (intro exI [of _ w']) simp
qed

lemma de3b: "duration_effective (heap window_three_late r) = (if r = 0 then 5 else if r = 1 then 3 else 2)"
  by (simp add: window_three_late_def window_three_def duration_effective_def base_duration_def new_clip_def example_media_def)

text \<open>
  The order after a split is the order of the items by position. The two new items are
  at 0 when \<open>repack_by_order\<close> sorts: with the playhead in the third of three clips, the
  two halves come right after the first clip and before the second.
\<close>

lemma split_third_clip_order:
  "map_sum id timeline (split_at_playhead window_three_late) = Inr [0, 3, 4, 1]
   \<and> map_sum id items_list (split_at_playhead window_three_late) = Inr [0, 3, 4, 1]"
proof -
  have il: "items_list window_three_late = [0, 1, 2]" "timeline window_three_late = [0, 1, 2]"
    "playhead_sec window_three_late = 9" "next_ref window_three_late = 3"
    by (simp_all add: window_three_late_def window_three_def)
  have loc: "clip_at_global_time window_three_late 9 = Some (2, 1)"
    by (simp add: clip_at_global_time_def il de3b)
  have x: "item_x window_three_late = (\<lambda>r. if r = 0 then 0 else if r = 1 then 500 else 800)"
    by (simp add: window_three_late_def window_three_def)
  show ?thesis
    by (simp add: split_at_playhead_def il loc de3b Let_def repack_fields x numeral_2_eq_2 numeral_3_eq_3)
qed

section \<open>The speed invariant\<close>

text \<open>
  C8. \<open>from_dict\<close> on a clip record whose stored speed is \<open>-2.0\<close>: the conversion
  \<open>float(...)\<close> succeeds, so the handler that sets 1.0 does not run and the loaded clip
  has speed \<open>-2.0\<close>. \<open>apply_speed_to_clip\<close> on the same value stores 1.0.
\<close>

theorem from_dict_negative_speed:
  "map_option speed (from_dict parse path_exists make_media record_negative_speed [example_media 10])
     = Some (- 2)
   \<and> speed (apply_speed_to_clip (- 2) c) = 1"
  by (simp add: from_dict_def record_negative_speed_def example_media_def get_default_def
        apply_speed_to_clip_def Let_def)

section \<open>Properties of the preview worker\<close>

lemma lookup_caches_fields:
  "temp_root (lookup_caches env w) = temp_root w"
  "thumbs_cache (lookup_caches env w) = thumbs_cache w"
  "wave_cache (lookup_caches env w) = wave_cache w"
  "pw_proxy_path (lookup_caches env w) = pw_proxy_path w"
  "proxy_width (lookup_caches env w) = proxy_width w"
  "proxy_enabled (lookup_caches env w) = proxy_enabled w"
  "emitted (lookup_caches env w) = emitted w"
  "media (pw_clip (lookup_caches env w)) = media (pw_clip w)"
  "start (pw_clip (lookup_caches env w)) = start (pw_clip w)"
  "end_time (pw_clip (lookup_caches env w)) = end_time (pw_clip w)"
  "preview_dir (pw_clip (lookup_caches env w)) = preview_dir (pw_clip w)"
  by (simp_all add: lookup_caches_def Let_def split: option.split)

lemma lookup_caches_thumbs:
  "thumb_paths (pw_clip (lookup_caches env w)) =
     (case thumbs_cache w (path (media (pw_clip w))) of
        None \<Rightarrow> thumb_paths (pw_clip w)
      | Some ts \<Rightarrow> if list_all (file_exists env) ts then ts else thumb_paths (pw_clip w))"
  by (simp add: lookup_caches_def Let_def split: option.split)

lemma lookup_caches_wave:
  "waveform_path (pw_clip (lookup_caches env w)) =
     (case wave_cache w (path (media (pw_clip w))) of
        None \<Rightarrow> waveform_path (pw_clip w)
      | Some wv \<Rightarrow> if file_exists env wv then Some wv else waveform_path (pw_clip w))"
  by (simp add: lookup_caches_def Let_def split: option.split)

lemma proxy_step_fields:
  "pw_clip (proxy_step env w) = pw_clip w"
  "thumbs_cache (proxy_step env w) = thumbs_cache w"
  "wave_cache (proxy_step env w) = wave_cache w"
  "emitted (proxy_step env w) = emitted w"
  by (simp_all add: proxy_step_def split: option.split)

lemma source_of_proxy_step_cong:
  assumes "proxy_enabled w' = proxy_enabled w" "temp_root w' = temp_root w"
    "proxy_width w' = proxy_width w" "pw_proxy_path w' = pw_proxy_path w"
    "media (pw_clip w') = media (pw_clip w)"
  shows "source_of (proxy_step env w') = source_of (proxy_step env w)"
  using assms by (simp add: source_of_def proxy_step_def split: option.split)

lemma path_join_nonempty: "path_join a b \<noteq> []"
  by (simp add: path_join_def)

lemma thumbs_step_fields:
  "media (pw_clip (thumbs_step env d a b w)) = media (pw_clip w)"
  "preview_dir (pw_clip (thumbs_step env d a b w)) = preview_dir (pw_clip w)"
  "waveform_path (pw_clip (thumbs_step env d a b w)) = waveform_path (pw_clip w)"
  "pw_proxy_path (thumbs_step env d a b w) = pw_proxy_path w"
  "emitted (thumbs_step env d a b w) = emitted w"
  by (simp_all add: thumbs_step_def Let_def)

lemma thumbs_step_thumbs:
  "thumb_paths (pw_clip (thumbs_step env d a b w)) =
     (if thumb_paths (pw_clip w) = []
      then generate_thumbs_from_source env (media (pw_clip w)) (source_of w) d a b
      else thumb_paths (pw_clip w))"
  by (simp add: thumbs_step_def Let_def)

lemma source_of_thumbs_step: "source_of (thumbs_step env d a b w) = source_of w"
  by (simp add: source_of_def thumbs_step_fields)

lemma wave_step_fields:
  "media (pw_clip (wave_step env d a b w)) = media (pw_clip w)"
  "preview_dir (pw_clip (wave_step env d a b w)) = preview_dir (pw_clip w)"
  "thumb_paths (pw_clip (wave_step env d a b w)) = thumb_paths (pw_clip w)"
  "pw_proxy_path (wave_step env d a b w) = pw_proxy_path w"
  "emitted (wave_step env d a b w) = emitted w"
  by (simp_all add: wave_step_def Let_def split: option.split)

lemma wave_step_wave:
  "waveform_path (pw_clip (wave_step env d a b w)) =
     (if \<not> truthy (waveform_path (pw_clip w))
         \<and> (mtype (media (pw_clip w)) = ''video'' \<or> mtype (media (pw_clip w)) = ''audio'')
      then (case generate_wave_from_source env (source_of w) d a b of
              None \<Rightarrow> waveform_path (pw_clip w)
            | Some wp \<Rightarrow> if wp \<noteq> [] then Some wp else waveform_path (pw_clip w))
      else waveform_path (pw_clip w))"
  by (simp add: wave_step_def Let_def split: option.split)

lemma attach_proxy_fields:
  "media (pw_clip (attach_proxy w)) = media (pw_clip w)"
  "preview_dir (pw_clip (attach_proxy w)) = preview_dir (pw_clip w)"
  "thumb_paths (pw_clip (attach_proxy w)) = thumb_paths (pw_clip w)"
  "waveform_path (pw_clip (attach_proxy w)) = waveform_path (pw_clip w)"
  "emitted (attach_proxy w) = emitted w"
  by (simp_all add: attach_proxy_def)

text \<open>The state on which the generation runs, and what it leaves in the clip.\<close>

lemma regenerate_unfold:
  "regenerate env w =
     attach_proxy
       (wave_step env (clip_dir_of env w) (window_start (pw_clip w)) (window_dur (pw_clip w))
          (thumbs_step env (clip_dir_of env w) (window_start (pw_clip w)) (window_dur (pw_clip w))
             (proxy_step env (w\<lparr> pw_clip := (pw_clip w)\<lparr> preview_dir := Some (clip_dir_of env w) \<rparr> \<rparr>))))"
proof -
  have ws: "window_start ((pw_clip w)\<lparr> preview_dir := Some (clip_dir_of env w) \<rparr>) = window_start (pw_clip w)"
    "window_dur ((pw_clip w)\<lparr> preview_dir := Some (clip_dir_of env w) \<rparr>) = window_dur (pw_clip w)"
    by (simp_all add: window_start_def window_dur_def Let_def split: option.split)
  show ?thesis
    by (simp add: regenerate_def Let_def proxy_step_fields ws)
qed

lemma source_after_dir:
  "source_of (proxy_step env (w\<lparr> pw_clip := (pw_clip w)\<lparr> preview_dir := d \<rparr> \<rparr>))
     = source_of (proxy_step env w)"
  by (rule source_of_proxy_step_cong) simp_all

lemma regenerate_emitted: "emitted (regenerate env w) = emitted w"
  by (simp add: regenerate_unfold attach_proxy_fields wave_step_fields thumbs_step_fields
        proxy_step_fields)

lemma regenerate_preview_dir:
  "preview_dir (pw_clip (regenerate env w)) = Some (clip_dir_of env w)"
  by (simp add: regenerate_unfold attach_proxy_fields wave_step_fields thumbs_step_fields
        proxy_step_fields)

lemma regenerate_thumbs:
  "thumb_paths (pw_clip (regenerate env w)) =
     (if thumb_paths (pw_clip w) = []
      then generate_thumbs_from_source env (media (pw_clip w)) (source_of (proxy_step env w))
             (clip_dir_of env w) (window_start (pw_clip w)) (window_dur (pw_clip w))
      else thumb_paths (pw_clip w))"
  by (simp add: regenerate_unfold attach_proxy_fields wave_step_fields thumbs_step_thumbs
        proxy_step_fields source_after_dir)

lemma regenerate_wave_general:
  "waveform_path (pw_clip (regenerate env w)) =
     (if \<not> truthy (waveform_path (pw_clip w))
         \<and> (mtype (media (pw_clip w)) = ''video'' \<or> mtype (media (pw_clip w)) = ''audio'')
      then (case generate_wave_from_source env (source_of (proxy_step env w))
                   (clip_dir_of env w) (window_start (pw_clip w)) (window_dur (pw_clip w)) of
              None \<Rightarrow> waveform_path (pw_clip w)
            | Some wp \<Rightarrow> if wp \<noteq> [] then Some wp else waveform_path (pw_clip w))
      else waveform_path (pw_clip w))"
  by (simp add: regenerate_unfold attach_proxy_fields wave_step_wave thumbs_step_fields
        source_of_thumbs_step proxy_step_fields source_after_dir split: option.split)

lemma regenerate_wave:
  assumes "waveform_path (pw_clip w) = None"
    and "mtype (media (pw_clip w)) = ''video'' \<or> mtype (media (pw_clip w)) = ''audio''"
  shows "waveform_path (pw_clip (regenerate env w)) =
     generate_wave_from_source env (source_of (proxy_step env w))
       (clip_dir_of env w) (window_start (pw_clip w)) (window_dur (pw_clip w))"
proof -
  have g: "\<And>src d a b. generate_wave_from_source env src d a b = None
       \<or> (\<exists>wp. generate_wave_from_source env src d a b = Some wp \<and> wp \<noteq> [])"
    by (simp add: generate_wave_from_source_def Let_def path_join_nonempty)
  show ?thesis
    using assms
      g [of "source_of (proxy_step env w)" "clip_dir_of env w" "window_start (pw_clip w)"
           "window_dur (pw_clip w)"]
    by (auto simp add: regenerate_wave_general truthy_def)
qed

lemma window_cong:
  assumes "start c' = start c" "end_time c' = end_time c" "media c' = media c"
  shows "window_start c' = window_start c" "window_dur c' = window_dur c"
  using assms by (simp_all add: window_start_def window_dur_def Let_def split: option.split)

lemma run_unfold:
  "run env w =
     (let w2 = lookup_caches env (w\<lparr> emitted := emitted w @ [Started] \<rparr>)
      in if truthy (waveform_path (pw_clip w2)) \<and> thumb_paths (pw_clip w2) \<noteq> []
         then w2\<lparr> emitted := emitted w2 @ [Done] \<rparr>
         else (regenerate env w2)\<lparr> emitted := emitted (regenerate env w2) @ [Done] \<rparr>)"
  by (simp add: run_def Let_def)

lemma regenerate_at_lookup:
  fixes env w
  defines "w2 \<equiv> lookup_caches env (w\<lparr> emitted := emitted w @ [Started] \<rparr>)"
  shows "clip_dir_of env w2 = clip_dir_of env w"
    and "source_of (proxy_step env w2) = source_of (proxy_step env w)"
    and "window_start (pw_clip w2) = window_start (pw_clip w)"
    and "window_dur (pw_clip w2) = window_dur (pw_clip w)"
    and "media (pw_clip w2) = media (pw_clip w)"
proof -
  show "clip_dir_of env w2 = clip_dir_of env w"
    by (simp add: clip_dir_of_def w2_def lookup_caches_fields)
  show "source_of (proxy_step env w2) = source_of (proxy_step env w)"
    by (rule source_of_proxy_step_cong) (simp_all add: w2_def lookup_caches_fields)
  show "window_start (pw_clip w2) = window_start (pw_clip w)"
    by (rule window_cong) (simp_all add: w2_def lookup_caches_fields)
  show "window_dur (pw_clip w2) = window_dur (pw_clip w)"
    by (rule window_cong) (simp_all add: w2_def lookup_caches_fields)
  show "media (pw_clip w2) = media (pw_clip w)"
    by (simp add: w2_def lookup_caches_fields)
qed

lemma run_thumbs_hit:
  assumes "thumbs_cache w (path (media (pw_clip w))) = Some ts"
    and "list_all (file_exists env) ts" and "ts \<noteq> []"
  shows "thumb_paths (pw_clip (run env w)) = ts"
proof -
  let ?w2 = "lookup_caches env (w\<lparr> emitted := emitted w @ [Started] \<rparr>)"
  have t: "thumb_paths (pw_clip ?w2) = ts"
    using assms by (simp add: lookup_caches_thumbs)
  show ?thesis
    using t assms(3) by (simp add: run_unfold Let_def regenerate_thumbs)
qed

lemma run_thumbs_miss:
  assumes "thumbs_cache w (path (media (pw_clip w))) = Some ts"
    and "\<not> list_all (file_exists env) ts" and "thumb_paths (pw_clip w) = []"
  shows "preview_dir (pw_clip (run env w)) = Some (clip_dir_of env w)"
    and "thumb_paths (pw_clip (run env w)) =
       generate_thumbs_from_source env (media (pw_clip w)) (source_of (proxy_step env w))
         (clip_dir_of env w) (window_start (pw_clip w)) (window_dur (pw_clip w))"
proof -
  let ?w2 = "lookup_caches env (w\<lparr> emitted := emitted w @ [Started] \<rparr>)"
  have t: "thumb_paths (pw_clip ?w2) = []"
    using assms by (simp add: lookup_caches_thumbs)
  have r: "run env w = (regenerate env ?w2)\<lparr> emitted := emitted (regenerate env ?w2) @ [Done] \<rparr>"
    using t by (simp add: run_unfold Let_def)
  show "preview_dir (pw_clip (run env w)) = Some (clip_dir_of env w)"
    by (simp add: r regenerate_preview_dir regenerate_at_lookup)
  show "thumb_paths (pw_clip (run env w)) =
       generate_thumbs_from_source env (media (pw_clip w)) (source_of (proxy_step env w))
         (clip_dir_of env w) (window_start (pw_clip w)) (window_dur (pw_clip w))"
    by (simp add: r regenerate_thumbs t regenerate_at_lookup)
qed

lemma regenerate_wave_keep:
  assumes "truthy (waveform_path (pw_clip w))"
  shows "waveform_path (pw_clip (regenerate env w)) = waveform_path (pw_clip w)"
  using assms by (simp add: regenerate_wave_general)

lemma run_wave_hit:
  assumes "wave_cache w (path (media (pw_clip w))) = Some wv"
    and "file_exists env wv" and "wv \<noteq> []"
  shows "waveform_path (pw_clip (run env w)) = Some wv"
proof -
  let ?w2 = "lookup_caches env (w\<lparr> emitted := emitted w @ [Started] \<rparr>)"
  have t: "waveform_path (pw_clip ?w2) = Some wv"
    using assms by (simp add: lookup_caches_wave)
  then have tr: "truthy (waveform_path (pw_clip ?w2))"
    using assms(3) by (simp add: truthy_def)
  show ?thesis
    using t regenerate_wave_keep [OF tr, of env] by (simp add: run_unfold Let_def)
qed

lemma run_wave_miss:
  assumes "wave_cache w (path (media (pw_clip w))) = Some wv"
    and "\<not> file_exists env wv" and "waveform_path (pw_clip w) = None"
    and "mtype (media (pw_clip w)) = ''video'' \<or> mtype (media (pw_clip w)) = ''audio''"
  shows "preview_dir (pw_clip (run env w)) = Some (clip_dir_of env w)"
    and "waveform_path (pw_clip (run env w)) =
       generate_wave_from_source env (source_of (proxy_step env w))
         (clip_dir_of env w) (window_start (pw_clip w)) (window_dur (pw_clip w))"
proof -
  let ?w2 = "lookup_caches env (w\<lparr> emitted := emitted w @ [Started] \<rparr>)"
  have t: "waveform_path (pw_clip ?w2) = None"
    using assms by (simp add: lookup_caches_wave)
  have m: "mtype (media (pw_clip ?w2)) = ''video'' \<or> mtype (media (pw_clip ?w2)) = ''audio''"
    using assms(4) by (simp add: lookup_caches_fields)
  have r: "run env w = (regenerate env ?w2)\<lparr> emitted := emitted (regenerate env ?w2) @ [Done] \<rparr>"
    using t by (simp add: run_unfold Let_def truthy_def)
  show "preview_dir (pw_clip (run env w)) = Some (clip_dir_of env w)"
    by (simp add: r regenerate_preview_dir regenerate_at_lookup)
  show "waveform_path (pw_clip (run env w)) =
       generate_wave_from_source env (source_of (proxy_step env w))
         (clip_dir_of env w) (window_start (pw_clip w)) (window_dur (pw_clip w))"
    using regenerate_wave [OF t m, of env] by (simp add: r regenerate_at_lookup)
qed

lemma run_done: "last (emitted (run env w)) = Done"
  by (simp add: run_unfold Let_def)


text \<open>
  C9. \<open>PreviewWorker.run\<close> on a clip that carries a thumbnail and a waveform taken from
  the caches earlier, after those files were deleted: the caches name the files, no
  cached file exists, so both lookups miss (the first four conjuncts), and the claim has
  the artifacts regenerated into a fresh directory. The run returns at
  \<open>if self.clip.waveform_path and self.clip.thumb_paths\<close>, which tests the paths the
  clip carries and not the outcome of the two lookups: it emits started and done, makes
  no directory, and the clip keeps the paths of the missing files.
\<close>

theorem stale_clip_not_regenerated:
  "thumbs_cache worker_stale (path (media (pw_clip worker_stale))) = Some [''old/thumb_00.jpg'']
   \<and> \<not> list_all (file_exists env_gone) [''old/thumb_00.jpg'']
   \<and> wave_cache worker_stale (path (media (pw_clip worker_stale))) = Some ''old/wave.png''
   \<and> \<not> file_exists env_gone ''old/wave.png''
   \<and> run env_gone worker_stale = worker_stale\<lparr> emitted := [Started, Done] \<rparr>
   \<and> preview_dir (pw_clip (run env_gone worker_stale)) = None
   \<and> thumb_paths (pw_clip (run env_gone worker_stale)) = [''old/thumb_00.jpg'']
   \<and> waveform_path (pw_clip (run env_gone worker_stale)) = Some ''old/wave.png''"
proof -
  have p: "path (media (pw_clip worker_stale)) = ''a.mp4''"
    by (simp add: worker_stale_def new_clip_def example_media_def)
  have c: "thumbs_cache worker_stale ''a.mp4'' = Some [''old/thumb_00.jpg'']"
    "wave_cache worker_stale ''a.mp4'' = Some ''old/wave.png''"
    by (simp_all add: worker_stale_def)
  have e: "\<And>f. file_exists env_gone f = False" by (simp add: env_gone_def)
  have l: "lookup_caches env_gone (worker_stale\<lparr> emitted := [Started] \<rparr>)
      = worker_stale\<lparr> emitted := [Started] \<rparr>"
    by (simp add: lookup_caches_def Let_def p c e)
  have f: "thumb_paths (pw_clip worker_stale) = [''old/thumb_00.jpg'']"
    "waveform_path (pw_clip worker_stale) = Some ''old/wave.png''"
    "preview_dir (pw_clip worker_stale) = None" "emitted worker_stale = []"
    by (simp_all add: worker_stale_def new_clip_def)
  have r: "run env_gone worker_stale = worker_stale\<lparr> emitted := [Started, Done] \<rparr>"
    by (simp add: run_unfold Let_def l f truthy_def)
  show ?thesis
    by (simp add: r p c e f)
qed

text \<open>
  The run on a clip that carries no artifact yet. A cached thumbnail list is taken over
  when every cached file exists, and a cached waveform when its file exists. When a
  cached file is missing, the thumbnails of a clip that has none and the waveform of a
  video or audio clip that has none are generated into the fresh directory of this run.
  The run ends with the signal done.
\<close>

lemma preview_cache_lookup:
  "(\<forall>ts. thumbs_cache w (path (media (pw_clip w))) = Some ts \<longrightarrow>
      (list_all (file_exists env) ts \<and> ts \<noteq> [] \<longrightarrow> thumb_paths (pw_clip (run env w)) = ts)
    \<and> (\<not> list_all (file_exists env) ts \<and> thumb_paths (pw_clip w) = [] \<longrightarrow>
          preview_dir (pw_clip (run env w)) = Some (clip_dir_of env w)
        \<and> thumb_paths (pw_clip (run env w)) =
            generate_thumbs_from_source env (media (pw_clip w)) (source_of (proxy_step env w))
              (clip_dir_of env w) (window_start (pw_clip w)) (window_dur (pw_clip w))))
   \<and> (\<forall>wv. wave_cache w (path (media (pw_clip w))) = Some wv \<longrightarrow>
      (file_exists env wv \<and> wv \<noteq> [] \<longrightarrow> waveform_path (pw_clip (run env w)) = Some wv)
    \<and> (\<not> file_exists env wv \<and> waveform_path (pw_clip w) = None
          \<and> (mtype (media (pw_clip w)) = ''video'' \<or> mtype (media (pw_clip w)) = ''audio'') \<longrightarrow>
          preview_dir (pw_clip (run env w)) = Some (clip_dir_of env w)
        \<and> waveform_path (pw_clip (run env w)) =
            generate_wave_from_source env (source_of (proxy_step env w))
              (clip_dir_of env w) (window_start (pw_clip w)) (window_dur (pw_clip w))))
   \<and> last (emitted (run env w)) = Done"
proof (intro conjI allI impI)
  fix ts
  assume "thumbs_cache w (path (media (pw_clip w))) = Some ts"
    and "list_all (file_exists env) ts \<and> ts \<noteq> []"
  then show "thumb_paths (pw_clip (run env w)) = ts"
    using run_thumbs_hit by blast
next
  fix ts
  assume a: "thumbs_cache w (path (media (pw_clip w))) = Some ts"
    and b: "\<not> list_all (file_exists env) ts \<and> thumb_paths (pw_clip w) = []"
  from b have b1: "\<not> list_all (file_exists env) ts" and b2: "thumb_paths (pw_clip w) = []"
    by simp_all
  show "preview_dir (pw_clip (run env w)) = Some (clip_dir_of env w)"
    by (rule run_thumbs_miss(1) [OF a b1 b2])
  show "thumb_paths (pw_clip (run env w)) =
            generate_thumbs_from_source env (media (pw_clip w)) (source_of (proxy_step env w))
              (clip_dir_of env w) (window_start (pw_clip w)) (window_dur (pw_clip w))"
    by (rule run_thumbs_miss(2) [OF a b1 b2])
next
  fix wv
  assume "wave_cache w (path (media (pw_clip w))) = Some wv"
    and "file_exists env wv \<and> wv \<noteq> []"
  then show "waveform_path (pw_clip (run env w)) = Some wv"
    using run_wave_hit by blast
next
  fix wv
  assume a: "wave_cache w (path (media (pw_clip w))) = Some wv"
    and b: "\<not> file_exists env wv \<and> waveform_path (pw_clip w) = None
          \<and> (mtype (media (pw_clip w)) = ''video'' \<or> mtype (media (pw_clip w)) = ''audio'')"
  from b have b1: "\<not> file_exists env wv" and b2: "waveform_path (pw_clip w) = None"
    and b3: "mtype (media (pw_clip w)) = ''video'' \<or> mtype (media (pw_clip w)) = ''audio''"
    by simp_all
  show "preview_dir (pw_clip (run env w)) = Some (clip_dir_of env w)"
    by (rule run_wave_miss(1) [OF a b1 b2 b3])
  show "waveform_path (pw_clip (run env w)) =
            generate_wave_from_source env (source_of (proxy_step env w))
              (clip_dir_of env w) (window_start (pw_clip w)) (window_dur (pw_clip w))"
    by (rule run_wave_miss(2) [OF a b1 b2 b3])
next
  show "last (emitted (run env w)) = Done" by (rule run_done)
qed

text \<open>The same on the fresh clip: both artifacts are generated in \<open>tmp/clip_0f\<close>.\<close>

lemma preview_cache_lookup_fresh:
  "preview_dir (pw_clip (run env_gone worker_fresh)) = Some ''tmp/clip_0f''
   \<and> thumb_paths (pw_clip (run env_gone worker_fresh)) = [''tmp/clip_0f/thumb_00.jpg'']
   \<and> waveform_path (pw_clip (run env_gone worker_fresh)) = Some ''tmp/clip_0f/wave.png''
   \<and> last (emitted (run env_gone worker_fresh)) = Done"
proof -
  have p: "path (media (pw_clip worker_fresh)) = ''a.mp4''"
    "mtype (media (pw_clip worker_fresh)) = ''video''"
    "media (pw_clip worker_fresh) = example_media 10"
    by (simp_all add: worker_fresh_def new_clip_def example_media_def)
  have c: "thumbs_cache worker_fresh ''a.mp4'' = Some [''old/thumb_00.jpg'']"
    "wave_cache worker_fresh ''a.mp4'' = Some ''old/wave.png''"
    by (simp_all add: worker_fresh_def worker_stale_def)
  have e: "\<And>f. file_exists env_gone f = False" by (simp add: env_gone_def)
  have f: "thumb_paths (pw_clip worker_fresh) = []" "waveform_path (pw_clip worker_fresh) = None"
    by (simp_all add: worker_fresh_def new_clip_def)
  have d: "clip_dir_of env_gone worker_fresh = ''tmp/clip_0f''"
    by (simp add: clip_dir_of_def worker_fresh_def worker_stale_def env_gone_def path_join_def)
  have g: "\<And>src st dur. generate_thumbs_from_source env_gone (example_media 10) src ''tmp/clip_0f'' st dur
      = [''tmp/clip_0f/thumb_00.jpg'']"
    "\<And>src st dur. generate_wave_from_source env_gone src ''tmp/clip_0f'' st dur
      = Some ''tmp/clip_0f/wave.png''"
    by (simp_all add: generate_thumbs_from_source_def generate_wave_from_source_def env_gone_def
          example_media_def path_join_def)
  have pm: "path (example_media 10) = ''a.mp4''" "mtype (example_media 10) = ''video''"
    by (simp_all add: example_media_def)
  from preview_cache_lookup [of worker_fresh env_gone]
  show ?thesis
    by (simp add: p pm c e f d g)
qed

section \<open>Properties of the clip command\<close>

lemma atempo_stages_total: "\<exists>stages. atempo_stages v = Some stages"
  using atempo_stages_general [of v] by blast

lemma speed_filters_cases:
  "or_float v 1 = 1 \<Longrightarrow> speed_filters (or_float v 1) = Some ([], [])"
  "or_float v 1 \<noteq> 1 \<Longrightarrow> atempo_stages v = Some stages \<Longrightarrow>
     speed_filters (or_float v 1) = Some ([[S ''setpts=PTS/'', F v]], [join_with [S '',''] stages])"
  by (auto simp add: speed_filters_def atempo_chain_def or_float_def split: if_splits)

lemma filters_speed_irrelevant:
  "lut_filters ex ld (c\<lparr>speed := v\<rparr>) = lut_filters ex ld c"
  "title_filters (c\<lparr>speed := v\<rparr>) = title_filters c"
  "start_args (c\<lparr>speed := v\<rparr>) = start_args c"
  "duration_args (c\<lparr>speed := v\<rparr>) = duration_args c"
  by (simp_all add: lut_filters_def title_filters_def start_args_def duration_args_def
        split: option.split)

lemma render_cmd_speed:
  assumes "atempo_stages v = Some stages"
  shows "render_cmd ex ld (c\<lparr>speed := v\<rparr>) out =
     Some (args [''ffmpeg'', ''-y''] @ start_args c @ args [''-i'', path (media c)]
           @ duration_args c
           @ (if v = 0 \<or> v = 1
              then (if lut_filters ex ld c @ title_filters c = [] then []
                    else [[S ''-vf''], join_with [S '',''] (lut_filters ex ld c @ title_filters c)])
              else [[S ''-vf''],
                    join_with [S '','']
                      (lut_filters ex ld c @ title_filters c @ [[S ''setpts=PTS/'', F v]])]
                   @ [[S ''-af''], join_with [S '',''] stages])
           @ codec_args @ args [out])"
proof (cases "v = 0 \<or> v = 1")
  case True
  then have "or_float v 1 = 1" by (auto simp add: or_float_def)
  from speed_filters_cases(1) [OF this] True show ?thesis
    by (simp add: render_cmd_def Let_def filters_speed_irrelevant)
next
  case False
  then have o: "or_float v 1 \<noteq> 1" by (auto simp add: or_float_def)
  from speed_filters_cases(2) [OF o assms] False show ?thesis
    by (simp add: render_cmd_def Let_def filters_speed_irrelevant)
qed

lemma render_cmd_total: "\<exists>k. render_cmd ex ld c out = Some k"
proof -
  obtain stages where st: "atempo_stages (speed c) = Some stages"
    using atempo_stages_total by blast
  have "c\<lparr>speed := speed c\<rparr> = c" by simp
  with render_cmd_speed [OF st, of ex ld c out] show ?thesis by simp
qed

text \<open>
  A clip with start \<open>-1.0\<close> and end \<open>0.0\<close>: the end is set and greater than the start,
  but \<open>if clip.end and ...\<close> tests the truth value of \<open>clip.end\<close> and 0.0 is false, so
  the command has no \<open>-t\<close> argument (and no \<open>-ss\<close>, the start not being positive).
\<close>

theorem render_end_zero_counterexample:
  "end_time ((new_clip (example_media 10))\<lparr> start := - 1, end_time := Some 0 \<rparr>) = Some 0
   \<and> start ((new_clip (example_media 10))\<lparr> start := - 1, end_time := Some 0 \<rparr>) < 0
   \<and> duration_args ((new_clip (example_media 10))\<lparr> start := - 1, end_time := Some 0 \<rparr>) = []
   \<and> render_cmd (\<lambda>p. False) ''luts''
        ((new_clip (example_media 10))\<lparr> start := - 1, end_time := Some 0 \<rparr>) ''out.mp4''
     = Some (args [''ffmpeg'', ''-y'', ''-i'', ''a.mp4''] @ codec_args @ args [''out.mp4''])"
  by (simp add: duration_args_def render_cmd_def start_args_def lut_filters_def
        title_filters_def speed_filters_def or_float_def new_clip_def example_media_def Let_def
        args_def)

text \<open>
  C5 (amended). For a clip whose end is set, is not 0.0 and is greater than its start,
  the render command passes \<open>-t\<close> with the raw window \<open>end - start\<close>, whatever the
  speed \<open>v\<close> of the clip; the speed only adds the filter \<open>setpts=PTS/v\<close> to the video
  filters and the tempo chain as the audio filter, and it adds nothing when it is 1.0
  (or 0.0, which \<open>or 1.0\<close> turns into 1.0).
\<close>

theorem render_trim_duration:
  assumes "end_time c = Some e" and "start c < e" and "e \<noteq> 0"
  shows "duration_args (c\<lparr>speed := v\<rparr>) = [[S ''-t''], [F (e - start c)]]
    \<and> start_args (c\<lparr>speed := v\<rparr>) = start_args c
    \<and> (\<exists>stages. atempo_stages v = Some stages
        \<and> render_cmd ex ld (c\<lparr>speed := v\<rparr>) out =
           Some (args [''ffmpeg'', ''-y''] @ start_args c @ args [''-i'', path (media c)]
                 @ [[S ''-t''], [F (e - start c)]]
                 @ (if v = 0 \<or> v = 1
                    then (if lut_filters ex ld c @ title_filters c = [] then []
                          else [[S ''-vf''],
                                join_with [S '',''] (lut_filters ex ld c @ title_filters c)])
                    else [[S ''-vf''],
                          join_with [S '','']
                            (lut_filters ex ld c @ title_filters c @ [[S ''setpts=PTS/'', F v]])]
                         @ [[S ''-af''], join_with [S '',''] stages])
                 @ codec_args @ args [out]))"
proof -
  have d: "duration_args c = [[S ''-t''], [F (e - start c)]]"
    using assms by (auto simp add: duration_args_def)
  obtain stages where st: "atempo_stages v = Some stages"
    using atempo_stages_total by blast
  show ?thesis
    using d st render_cmd_speed [OF st, of ex ld c out]
    by (simp add: filters_speed_irrelevant)
qed

theorem render_trim_duration_witness:
  "duration_args ((new_clip (example_media 10))\<lparr> start := 2, end_time := Some 8, speed := 2 \<rparr>)
     = [[S ''-t''], [F 6]]
   \<and> render_cmd (\<lambda>p. False) ''luts''
        ((new_clip (example_media 10))\<lparr> start := 2, end_time := Some 8, speed := 2 \<rparr>) ''out.mp4''
     = Some (args [''ffmpeg'', ''-y''] @ [[S ''-ss''], [F 2]] @ args [''-i'', ''a.mp4'']
             @ [[S ''-t''], [F 6]]
             @ [[S ''-vf''], [S ''setpts=PTS/'', F 2]]
             @ [[S ''-af''], [S ''atempo='', F6 2]]
             @ codec_args @ args [''out.mp4''])"
proof -
  let ?c = "(new_clip (example_media 10))\<lparr> start := 2, end_time := Some 8 \<rparr>"
  have 1: "end_time ?c = Some 8" by simp
  have 2: "start ?c < 8" by simp
  have 3: "(8::real) \<noteq> 0" by simp
  have st: "atempo_stages 2 = Some [[S ''atempo='', F6 2]]"
    by (simp add: atempo_stages_def halve_loop.simps double_loop.simps)
  have f: "lut_filters (\<lambda>p. False) ''luts'' ?c = []" "title_filters ?c = []"
    "start_args ?c = [[S ''-ss''], [F 2]]" "path (media ?c) = ''a.mp4''"
    by (simp_all add: lut_filters_def title_filters_def start_args_def new_clip_def
          example_media_def)
  have m: "path (media (new_clip (example_media 10))) = ''a.mp4''"
    by (simp add: new_clip_def example_media_def)
  from render_trim_duration [OF 1 2 3, of 2 "\<lambda>p. False" "''luts''" "''out.mp4''"]
  show ?thesis
    by (simp add: st f m)
qed

section \<open>Properties of the export\<close>

lemma step_at_return: "step_at final env (return_exec x) s"
  unfolding step_at_def return_exec_def
  by (rule exI [of _ "[]"]) (simp add: outcome_def)

lemma step_at_run_checked:
  assumes "label \<in> set failure_labels"
  shows "step_at final env (run_checked env label c) s"
proof (cases "run_cmd env c")
  case (fields code out err)
  show ?thesis
  proof (cases "code = 0")
    case True
    with fields show ?thesis
      unfolding step_at_def run_checked_def
      by (intro exI [of _ "[Ran c]"]) (simp add: outcome_def)
  next
    case False
    with fields assms show ?thesis
      unfolding step_at_def run_checked_def
      by (intro exI [of _ "[Ran c]"]) (auto simp add: outcome_def)
  qed
qed

lemma outcome_append:
  assumes "outcome False env evs1 (Inr x)" and "outcome final env evs2 res"
  shows "outcome final env (evs1 @ evs2) res"
proof (cases res)
  case (Inr y)
  with assms show ?thesis by (auto simp add: outcome_def)
next
  case (Inl f)
  show ?thesis
  proof (cases f)
    case Diverged
    with Inl assms show ?thesis by (simp add: outcome_def)
  next
    case (Raised m)
    with Inl assms(2) obtain pre c where
      p: "evs2 = pre @ [Ran c]" "list_all (succeeded env) pre" "fst (run_cmd env c) \<noteq> 0"
         "\<exists>label \<in> set failure_labels. m = label @ snd (snd (run_cmd env c))"
      and q: "\<not> list_ex is_promotion evs2"
      by (auto simp add: outcome_def)
    have "evs1 @ evs2 = (evs1 @ pre) @ [Ran c]" using p(1) by simp
    moreover have "list_all (succeeded env) (evs1 @ pre)"
      using assms(1) p(2) by (simp add: outcome_def)
    moreover have "\<not> list_ex is_promotion (evs1 @ evs2)"
      using assms(1) q by (simp add: outcome_def)
    ultimately show ?thesis
      using Inl Raised p(3,4) unfolding outcome_def by (simp only: sum.case failure.case) blast
  qed
qed

lemma outcome_Inl_cast:
  "outcome False env evs (Inl e :: failure + 'a) \<Longrightarrow> outcome final env evs (Inl e :: failure + 'b)"
  by (cases e) (simp_all add: outcome_def)

lemma step_at_bind:
  assumes m: "step_at False env m s"
    and f: "\<And>x s'. m s = (s', Inr x) \<Longrightarrow> exporter s' = exporter s \<Longrightarrow> step_at final env (f x) s'"
  shows "step_at final env (bind_exec m f) s"
proof -
  from m obtain evs1 res1 where
    e1: "m s = (s\<lparr> trace := trace s @ evs1 \<rparr>, res1)" and o1: "outcome False env evs1 res1"
    unfolding step_at_def by blast
  show ?thesis
  proof (cases res1)
    case (Inl e)
    with e1 o1 show ?thesis
      unfolding step_at_def bind_exec_def
      by (intro exI [of _ evs1] exI [of _ "Inl e"]) (simp add: outcome_Inl_cast)
  next
    case (Inr x)
    let ?s1 = "s\<lparr> trace := trace s @ evs1 \<rparr>"
    have "m s = (?s1, Inr x)" using e1 Inr by simp
    moreover have "exporter ?s1 = exporter s" by simp
    ultimately have "step_at final env (f x) ?s1" by (rule f)
    then obtain evs2 res2 where
      e2: "f x ?s1 = (?s1\<lparr> trace := trace ?s1 @ evs2 \<rparr>, res2)"
      and o2: "outcome final env evs2 res2"
      unfolding step_at_def by blast
    from o1 Inr have "outcome False env evs1 (Inr x)" by simp
    from outcome_append [OF this o2] e1 e2 Inr show ?thesis
      unfolding step_at_def bind_exec_def
      by (intro exI [of _ "evs1 @ evs2"] exI [of _ res2]) simp
  qed
qed



lemma step_at_render_single_clip: "step_at False env (render_single_clip env c out) s"
proof -
  obtain k where k: "render_cmd (os_path_exists env) (lut_dir (exporter s)) c out = Some k"
    using render_cmd_total by blast
  have "render_single_clip env c out s = run_checked env ''Failed to render clip: '' k s"
    by (simp add: render_single_clip_def k)
  moreover have "step_at False env (run_checked env ''Failed to render clip: '' k) s"
    by (rule step_at_run_checked) (simp add: failure_labels_def)
  ultimately show ?thesis by (simp add: step_at_def)
qed

lemma step_at_render_loop: "\<forall>idx s. step_at False env (render_loop env td idx clips) s"
proof (induction clips)
  case Nil
  show ?case by (simp add: step_at_return)
next
  case (Cons c rest)
  show ?case
  proof (intro allI)
    fix idx s
    show "step_at False env (render_loop env td idx (c # rest)) s"
      unfolding render_loop.simps Let_def
      by (intro step_at_bind step_at_render_single_clip step_at_return Cons.IH [rule_format])
  qed
qed

lemma step_at_render_all_clips: "step_at False env (render_all_clips env td) s"
proof -
  have "step_at False env (render_loop env td 0 (ex_timeline (exporter s))) s"
    using step_at_render_loop by blast
  then show ?thesis by (simp add: step_at_def render_all_clips_def)
qed

lemma render_loop_length:
  "\<forall>idx s s' paths. render_loop env td idx clips s = (s', Inr paths) \<longrightarrow> length paths = length clips"
proof (induction clips)
  case Nil
  show ?case by (simp add: return_exec_def)
next
  case (Cons c rest)
  show ?case
  proof (intro allI impI)
    fix idx s s' paths
    assume a: "render_loop env td idx (c # rest) s = (s', Inr paths)"
    from a obtain s1 s2 ps where "render_loop env td (Suc idx) rest s1 = (s2, Inr ps)"
      and "paths = path_join td (''clip_'' @ str_nat idx @ ''.mp4'') # ps"
      by (auto simp add: Let_def bind_exec_def return_exec_def split: prod.splits sum.splits)
    with Cons.IH show "length paths = length (c # rest)" by auto
  qed
qed



lemma transitions_loop_Cons:
  "transitions_loop env td i current (n # rest) s =
     bind_exec
        (run_checked env ''Failed transition step: ''
           (transition_cmd (transition_of (ex_timeline (exporter s)) (i - 1)) current n
              (path_join td (''xfade_'' @ str_nat (i - 1) @ ''.mp4''))))
        (\<lambda>u. transitions_loop env td (Suc i) (path_join td (''xfade_'' @ str_nat (i - 1) @ ''.mp4'')) rest) s"
  by (simp add: Let_def)








lemma render_cmd_plain:
  "render_cmd (\<lambda>p. False) ''luts'' ((new_clip (example_media 10))\<lparr> transition := tr \<rparr>) out
     = Some (args [''ffmpeg'', ''-y'', ''-i'', ''a.mp4''] @ codec_args @ args [out])"
  by (simp add: render_cmd_def start_args_def duration_args_def lut_filters_def
        title_filters_def speed_filters_def or_float_def new_clip_def example_media_def Let_def
        args_def)


subsection \<open>The assembly path\<close>

lemma run_checked_eq:
  "run_checked env label c s =
     (s\<lparr> trace := trace s @ [Ran c] \<rparr>,
      if fst (run_cmd env c) \<noteq> 0 then Inl (Raised (label @ snd (snd (run_cmd env c))))
      else Inr ())"
  by (cases "run_cmd env c") (simp add: run_checked_def)

lemma transition_of_step:
  assumes "k < length tline"
  shows "transition_cmd (transition_of tline k) acc nxt out =
     (if transition (tline ! k) = ''none'' \<or> transition (tline ! k) = []
      then concat_pair_cmd acc nxt out
      else xfade_cmd (if transition (tline ! k) = ''crossfade'' then ''fade'' else transition (tline ! k))
             acc nxt out)"
  using assms by (simp add: transition_of_def transition_cmd_def Let_def)

lemma transitions_loop_chain:
  "\<forall>k acc (s :: export_state).
      k + length nexts < length (ex_timeline (exporter s))
      \<longrightarrow> (\<exists>res. transitions_loop env td (Suc k) acc nexts s
            = (s\<lparr> trace := trace s
                   @ until_failure env (spec_chain td (drop k (ex_timeline (exporter s))) acc nexts k) \<rparr>,
               res)
          \<and> (isl res \<longleftrightarrow>
               \<not> list_all (succeeded env) (spec_chain td (drop k (ex_timeline (exporter s))) acc nexts k)))"
proof (induction nexts)
  case Nil
  show ?case
  proof (intro allI impI)
    fix k acc and s :: export_state
    have "spec_chain td (drop k (ex_timeline (exporter s))) acc [] k = []"
      by (cases "drop k (ex_timeline (exporter s))") simp_all
    then show "\<exists>res. transitions_loop env td (Suc k) acc [] s
            = (s\<lparr> trace := trace s
                   @ until_failure env (spec_chain td (drop k (ex_timeline (exporter s))) acc [] k) \<rparr>,
               res)
          \<and> (isl res \<longleftrightarrow>
               \<not> list_all (succeeded env) (spec_chain td (drop k (ex_timeline (exporter s))) acc [] k))"
      by (simp add: return_exec_def)
  qed
next
  case (Cons n rest)
  show ?case
  proof (intro allI impI)
    fix k acc and s :: export_state
    assume len: "k + length (n # rest) < length (ex_timeline (exporter s))"
    let ?tl = "ex_timeline (exporter s)"
    let ?out = "path_join td (''xfade_'' @ str_nat k @ ''.mp4'')"
    from len have kl: "k < length ?tl" by simp
    then have dr: "drop k ?tl = ?tl ! k # drop (Suc k) ?tl" by (simp add: Cons_nth_drop_Suc)
    let ?c = "transition_cmd (transition_of ?tl k) acc n ?out"
    let ?s1 = "s\<lparr> trace := trace s @ [Ran ?c] \<rparr>"
    let ?tail = "spec_chain td (drop (Suc k) ?tl) ?out rest (Suc k)"
    have sc: "spec_chain td (drop k ?tl) acc (n # rest) k = Ran ?c # ?tail"
      by (simp add: dr Let_def transition_of_step [OF kl])
    have u: "transitions_loop env td (Suc k) acc (n # rest) s
        = bind_exec (run_checked env ''Failed transition step: '' ?c)
            (\<lambda>u. transitions_loop env td (Suc (Suc k)) ?out rest) s"
      using transitions_loop_Cons [of env td "Suc k" acc n rest s] by (simp only: diff_Suc_1)
    show "\<exists>res. transitions_loop env td (Suc k) acc (n # rest) s
            = (s\<lparr> trace := trace s @ until_failure env (spec_chain td (drop k ?tl) acc (n # rest) k) \<rparr>,
               res)
          \<and> (isl res \<longleftrightarrow> \<not> list_all (succeeded env) (spec_chain td (drop k ?tl) acc (n # rest) k))"
    proof (cases "fst (run_cmd env ?c) = 0")
      case True
      have st: "run_checked env ''Failed transition step: '' ?c s = (?s1, Inr ())"
        using True by (simp only: run_checked_eq) simp
      have len': "Suc k + length rest < length (ex_timeline (exporter ?s1))"
        using len by simp
      from Cons.IH [rule_format, OF len', of ?out]
      obtain res where
        ih: "transitions_loop env td (Suc (Suc k)) ?out rest ?s1
            = (?s1\<lparr> trace := trace ?s1 @ until_failure env ?tail \<rparr>, res)"
        and il: "isl res \<longleftrightarrow> \<not> list_all (succeeded env) ?tail"
        by auto
      have "transitions_loop env td (Suc k) acc (n # rest) s
          = transitions_loop env td (Suc (Suc k)) ?out rest ?s1"
        by (simp only: u bind_exec_def st prod.case sum.case)
      also have "\<dots> = (?s1\<lparr> trace := trace ?s1 @ until_failure env ?tail \<rparr>, res)"
        by (rule ih)
      also have "\<dots> = (s\<lparr> trace := trace s
            @ until_failure env (spec_chain td (drop k ?tl) acc (n # rest) k) \<rparr>, res)"
        using True by (simp add: sc)
      finally have "transitions_loop env td (Suc k) acc (n # rest) s
          = (s\<lparr> trace := trace s
            @ until_failure env (spec_chain td (drop k ?tl) acc (n # rest) k) \<rparr>, res)" .
      moreover have "isl res \<longleftrightarrow> \<not> list_all (succeeded env) (spec_chain td (drop k ?tl) acc (n # rest) k)"
        using il True by (simp add: sc)
      ultimately show ?thesis by blast
    next
      case False
      let ?e = "Inl (Raised (''Failed transition step: '' @ snd (snd (run_cmd env ?c)))) :: failure + unit"
      have st: "run_checked env ''Failed transition step: '' ?c s = (?s1, ?e)"
        using False by (simp only: run_checked_eq) simp
      have "transitions_loop env td (Suc k) acc (n # rest) s
          = (?s1, Inl (Raised (''Failed transition step: '' @ snd (snd (run_cmd env ?c)))))"
        by (simp only: u bind_exec_def st prod.case sum.case)
      also have "?s1 = s\<lparr> trace := trace s
            @ until_failure env (spec_chain td (drop k ?tl) acc (n # rest) k) \<rparr>"
        using False by (simp add: sc)
      finally have "transitions_loop env td (Suc k) acc (n # rest) s
          = (s\<lparr> trace := trace s
            @ until_failure env (spec_chain td (drop k ?tl) acc (n # rest) k) \<rparr>,
             Inl (Raised (''Failed transition step: '' @ snd (snd (run_cmd env ?c)))))" .
      moreover have "\<not> list_all (succeeded env) (spec_chain td (drop k ?tl) acc (n # rest) k)"
        using False by (simp add: sc)
      ultimately show ?thesis by (intro exI [of _ "Inl (Raised (''Failed transition step: '' @ snd (snd (run_cmd env ?c))))"]) simp
    qed
  qed
qed

lemma transitions_loop_refines:
  fixes s :: export_state
  assumes "k + length nexts < length (ex_timeline (exporter s))"
  shows "\<exists>res. transitions_loop env td (Suc k) acc nexts s
            = (s\<lparr> trace := trace s
                   @ until_failure env (spec_chain td (drop k (ex_timeline (exporter s))) acc nexts k) \<rparr>,
               res)
          \<and> (isl res \<longleftrightarrow>
               \<not> list_all (succeeded env) (spec_chain td (drop k (ex_timeline (exporter s))) acc nexts k))"
  using transitions_loop_chain [of nexts env td] assms by blast

lemma concatenate_simple_refines:
  "\<exists>res. concatenate_simple env clips td s =
     (s\<lparr> trace := trace s @
          until_failure env
            [Wrote (path_join td ''concat_list.txt'') (manifest_lines clips),
             Ran (simple_concat_cmd (path_join td ''concat_list.txt'')
                    (path_join td ''concatenated.mp4''))] \<rparr>, res)
    \<and> (isl res \<longleftrightarrow> \<not> list_all (succeeded env)
            [Wrote (path_join td ''concat_list.txt'') (manifest_lines clips),
             Ran (simple_concat_cmd (path_join td ''concat_list.txt'')
                    (path_join td ''concatenated.mp4''))])"
proof -
  let ?s1 = "s\<lparr> trace := trace s @ [Wrote (path_join td ''concat_list.txt'') (manifest_lines clips)] \<rparr>"
  let ?c = "simple_concat_cmd (path_join td ''concat_list.txt'') (path_join td ''concatenated.mp4'')"
  have u: "concatenate_simple env clips td s
      = bind_exec (run_checked env ''Failed to concatenate clips: '' ?c)
          (\<lambda>u. return_exec (path_join td ''concatenated.mp4'')) ?s1"
    by (simp add: concatenate_simple_def Let_def)
  show ?thesis
  proof (cases "fst (run_cmd env ?c) = 0")
    case True
    have "concatenate_simple env clips td s
        = (?s1\<lparr> trace := trace ?s1 @ [Ran ?c] \<rparr>, Inr (path_join td ''concatenated.mp4''))"
      using True by (simp only: u bind_exec_def run_checked_eq return_exec_def) simp
    with True show ?thesis by simp
  next
    case False
    have "concatenate_simple env clips td s
        = (?s1\<lparr> trace := trace ?s1 @ [Ran ?c] \<rparr>,
           Inl (Raised (''Failed to concatenate clips: '' @ snd (snd (run_cmd env ?c)))))"
      using False by (simp only: u bind_exec_def run_checked_eq return_exec_def) simp
    with False show ?thesis by simp
  qed
qed

lemma assemble_refines:
  fixes s :: export_state
  assumes len: "length rendered = length (ex_timeline (exporter s))"
  shows "\<exists>res. assemble env td rendered s
      = (s\<lparr> trace := trace s
             @ until_failure env (spec_assembly td (ex_timeline (exporter s)) rendered) \<rparr>, res)
     \<and> (isl res \<longleftrightarrow>
          \<not> list_all (succeeded env) (spec_assembly td (ex_timeline (exporter s)) rendered))"
proof (cases "list_ex (\<lambda>c. transition c = ''crossfade'') (ex_timeline (exporter s))")
  case False
  then have nc: "\<forall>c \<in> set (ex_timeline (exporter s)). transition c \<noteq> ''crossfade''"
    by (simp add: list_ex_iff)
  from False have a: "assemble env td rendered s = concatenate_simple env rendered td s"
    by (simp add: assemble_def)
  have sa: "spec_assembly td (ex_timeline (exporter s)) rendered
      = [Wrote (path_join td ''concat_list.txt'') (manifest_lines rendered),
         Ran (simple_concat_cmd (path_join td ''concat_list.txt'')
                (path_join td ''concatenated.mp4''))]"
    using nc by (simp add: spec_assembly_def)
  show ?thesis
    unfolding a sa by (rule concatenate_simple_refines)
next
  case True
  then have yc: "\<not> (\<forall>c \<in> set (ex_timeline (exporter s)). transition c \<noteq> ''crossfade'')"
    by (simp add: list_ex_iff)
  from True have "ex_timeline (exporter s) \<noteq> []" by auto
  with len obtain r rest where r: "rendered = r # rest" by (cases rendered) auto
  from r True have a: "assemble env td rendered s = transitions_loop env td (Suc 0) r rest s"
    by (simp add: assemble_def concatenate_with_transitions_def)
  from len r have l: "0 + length rest < length (ex_timeline (exporter s))" by simp
  have sa: "spec_assembly td (ex_timeline (exporter s)) rendered
      = spec_chain td (drop 0 (ex_timeline (exporter s))) r rest 0"
    using yc r by (auto simp add: spec_assembly_def)
  show ?thesis
    unfolding a sa by (rule transitions_loop_refines [OF l])
qed

lemma until_failure_subset: "set (until_failure env evs) \<subseteq> set evs"
  by (induction evs) auto

lemma spec_chain_no_manifest: "Wrote p ls \<notin> set (spec_chain td lefts acc rest k)"
  by (induction td lefts acc rest k rule: spec_chain.induct) (simp_all add: Let_def)

lemma manifest_iff:
  "(\<exists>p ls. Wrote p ls \<in> set (until_failure env (spec_assembly td tline rendered)))
    \<longleftrightarrow> (\<forall>c \<in> set tline. transition c \<noteq> ''crossfade'')"
proof (cases "\<forall>c \<in> set tline. transition c \<noteq> ''crossfade''")
  case True
  then show ?thesis by (auto simp add: spec_assembly_def)
next
  case False
  have "\<And>p ls. Wrote p ls \<notin> set (spec_assembly td tline rendered)"
    using False by (auto simp add: spec_assembly_def spec_chain_no_manifest split: list.splits)
  with until_failure_subset [of env "spec_assembly td tline rendered"] False
  show ?thesis by blast
qed

text \<open>
  C4 (amended). \<open>export\<close> renders the clips and, when that stage returns the rendered
  files, runs the assembly that \<open>spec_assembly\<close> words, up to the first command that
  fails: the manifest and one stream-copy concat if and only if no clip has the
  transition \<open>crossfade\<close>; otherwise the left-to-right chain over the rendered files,
  with a filter-graph concat of video and audio where the left clip's transition is
  \<open>none\<close> or empty, and a video-only xfade (duration \<open>CROSSFADE_DURATION\<close>, offset 1)
  with the left clip's style otherwise. The assembly raises exactly when one of these
  commands fails, and what it returns goes to the finalization.
\<close>

theorem export_assembly_path:
  fixes s :: export_state
  shows "\<exists>evs res. render_all_clips env temp_dir s = (s\<lparr> trace := trace s @ evs \<rparr>, res)
     \<and> (\<forall>rendered. res = Inr rendered \<longrightarrow>
          length rendered = length (ex_timeline (exporter s))
        \<and> (\<exists>res'. assemble env temp_dir rendered (s\<lparr> trace := trace s @ evs \<rparr>)
               = (s\<lparr> trace := trace s @ evs
                     @ until_failure env
                         (spec_assembly temp_dir (ex_timeline (exporter s)) rendered) \<rparr>, res')
             \<and> (isl res' \<longleftrightarrow>
                  \<not> list_all (succeeded env)
                      (spec_assembly temp_dir (ex_timeline (exporter s)) rendered))
             \<and> export env output_path temp_dir s
                 = wrap_failure
                     (case res' of
                        Inl e \<Rightarrow>
                          (s\<lparr> trace := trace s @ evs
                              @ until_failure env
                                  (spec_assembly temp_dir (ex_timeline (exporter s)) rendered) \<rparr>,
                           Inl e)
                      | Inr final_video \<Rightarrow>
                          finalize env output_path temp_dir final_video
                            (s\<lparr> trace := trace s @ evs
                                @ until_failure env
                                    (spec_assembly temp_dir (ex_timeline (exporter s)) rendered) \<rparr>)))
        \<and> ((\<exists>p ls. Wrote p ls
                \<in> set (until_failure env
                         (spec_assembly temp_dir (ex_timeline (exporter s)) rendered)))
            \<longleftrightarrow> (\<forall>c \<in> set (ex_timeline (exporter s)). transition c \<noteq> ''crossfade'')))"
proof -
  from step_at_render_all_clips [of env temp_dir s]
  obtain evs res where
    r: "render_all_clips env temp_dir s = (s\<lparr> trace := trace s @ evs \<rparr>, res)"
    unfolding step_at_def by blast
  let ?sR = "s\<lparr> trace := trace s @ evs \<rparr>"
  let ?tl = "ex_timeline (exporter s)"
  have "\<forall>rendered. res = Inr rendered \<longrightarrow>
          length rendered = length ?tl
        \<and> (\<exists>res'. assemble env temp_dir rendered ?sR
               = (s\<lparr> trace := trace s @ evs @ until_failure env (spec_assembly temp_dir ?tl rendered) \<rparr>, res')
             \<and> (isl res' \<longleftrightarrow> \<not> list_all (succeeded env) (spec_assembly temp_dir ?tl rendered))
             \<and> export env output_path temp_dir s
                 = wrap_failure
                     (case res' of
                        Inl e \<Rightarrow>
                          (s\<lparr> trace := trace s @ evs @ until_failure env (spec_assembly temp_dir ?tl rendered) \<rparr>,
                           Inl e)
                      | Inr final_video \<Rightarrow>
                          finalize env output_path temp_dir final_video
                            (s\<lparr> trace := trace s @ evs @ until_failure env (spec_assembly temp_dir ?tl rendered) \<rparr>)))
        \<and> ((\<exists>p ls. Wrote p ls \<in> set (until_failure env (spec_assembly temp_dir ?tl rendered)))
            \<longleftrightarrow> (\<forall>c \<in> set ?tl. transition c \<noteq> ''crossfade''))"
  proof (intro allI impI)
    fix rendered
    assume ri: "res = Inr rendered"
    let ?sA = "s\<lparr> trace := trace s @ evs @ until_failure env (spec_assembly temp_dir ?tl rendered) \<rparr>"
    from r ri have "render_loop env temp_dir 0 ?tl s = (?sR, Inr rendered)"
      by (simp add: render_all_clips_def)
    then have len: "length rendered = length ?tl"
      using render_loop_length by blast
    then have len': "length rendered = length (ex_timeline (exporter ?sR))" by simp
    from assemble_refines [OF len', of env temp_dir]
    obtain res' where
      a: "assemble env temp_dir rendered ?sR = (?sA, res')"
      and il: "isl res' \<longleftrightarrow> \<not> list_all (succeeded env) (spec_assembly temp_dir ?tl rendered)"
      by auto
    have x: "export env output_path temp_dir s
        = wrap_failure
            (case res' of Inl e \<Rightarrow> (?sA, Inl e)
             | Inr final_video \<Rightarrow> finalize env output_path temp_dir final_video ?sA)"
      by (simp only: export_def bind_exec_def r ri a prod.case sum.case)
    from len a il x manifest_iff [of env temp_dir ?tl rendered]
    show "length rendered = length ?tl
        \<and> (\<exists>res'. assemble env temp_dir rendered ?sR = (?sA, res')
             \<and> (isl res' \<longleftrightarrow> \<not> list_all (succeeded env) (spec_assembly temp_dir ?tl rendered))
             \<and> export env output_path temp_dir s
                 = wrap_failure
                     (case res' of Inl e \<Rightarrow> (?sA, Inl e)
                      | Inr final_video \<Rightarrow> finalize env output_path temp_dir final_video ?sA))
        \<and> ((\<exists>p ls. Wrote p ls \<in> set (until_failure env (spec_assembly temp_dir ?tl rendered)))
            \<longleftrightarrow> (\<forall>c \<in> set ?tl. transition c \<noteq> ''crossfade''))"
      by blast
  qed
  with r show ?thesis by blast
qed

lemma env_ok_fields:
  "run_cmd env_ok = (\<lambda>c. (0, [], []))" "os_path_exists env_ok = (\<lambda>p. False)"
  "os_replace env_ok = (\<lambda>a b. True)"
  by (simp_all add: env_ok_def)

lemma str_nat_digits: "str_nat 0 = ''0''" "str_nat (Suc 0) = ''1''" "str_nat (Suc (Suc 0)) = ''2''"
  by (simp_all add: str_nat.simps digit_char_def)

lemma render_two_plain:
  assumes "ex_timeline (exporter s)
      = [(new_clip (example_media 10))\<lparr> transition := t0 \<rparr>,
         (new_clip (example_media 10))\<lparr> transition := t1 \<rparr>]"
    and "lut_dir (exporter s) = ''luts''"
  shows "render_all_clips env_ok ''tmp'' s
      = (s\<lparr> trace := trace s @
            [Ran (args [''ffmpeg'', ''-y'', ''-i'', ''a.mp4''] @ codec_args @ args [''tmp/clip_0.mp4'']),
             Ran (args [''ffmpeg'', ''-y'', ''-i'', ''a.mp4''] @ codec_args @ args [''tmp/clip_1.mp4''])] \<rparr>,
         Inr [''tmp/clip_0.mp4'', ''tmp/clip_1.mp4''])"
  using assms
  by (simp add: render_all_clips_def Let_def bind_exec_def return_exec_def render_single_clip_def
        env_ok_fields render_cmd_plain run_checked_def path_join_def str_nat_digits)


text \<open>
  Two clips of which the first has the wipe style \<open>wipeleft\<close>: the simple concatenation.
\<close>

theorem export_assembly_path_witness:
  "export env_ok ''out.mp4'' ''tmp'' exporter_wipe
     = (exporter_wipe
          \<lparr> trace :=
              [Ran (args [''ffmpeg'', ''-y'', ''-i'', ''a.mp4''] @ codec_args @ args [''tmp/clip_0.mp4'']),
               Ran (args [''ffmpeg'', ''-y'', ''-i'', ''a.mp4''] @ codec_args @ args [''tmp/clip_1.mp4'']),
               Wrote ''tmp/concat_list.txt'' (manifest_lines [''tmp/clip_0.mp4'', ''tmp/clip_1.mp4'']),
               Ran (simple_concat_cmd ''tmp/concat_list.txt'' ''tmp/concatenated.mp4''),
               Replaced ''tmp/concatenated.mp4'' ''out.mp4''] \<rparr>,
        Inr ())"
proof -
  let ?tl = "[(new_clip (example_media 10))\<lparr> transition := ''wipeleft'' \<rparr>,
              (new_clip (example_media 10))\<lparr> transition := ''none'' \<rparr>]"
  let ?k0 = "Ran (args [''ffmpeg'', ''-y'', ''-i'', ''a.mp4''] @ codec_args @ args [''tmp/clip_0.mp4''])"
  let ?k1 = "Ran (args [''ffmpeg'', ''-y'', ''-i'', ''a.mp4''] @ codec_args @ args [''tmp/clip_1.mp4''])"
  let ?rendered = "[''tmp/clip_0.mp4'', ''tmp/clip_1.mp4'']"
  let ?plan = "[Wrote ''tmp/concat_list.txt'' (manifest_lines ?rendered),
                Ran (simple_concat_cmd ''tmp/concat_list.txt'' ''tmp/concatenated.mp4'')]"
  have tl: "ex_timeline (exporter exporter_wipe) = ?tl"
    by (simp add: exporter_wipe_def new_clip_def)
  have f: "lut_dir (exporter exporter_wipe) = ''luts''" "trace exporter_wipe = []"
    "bg_music (exporter exporter_wipe) = None"
    by (simp_all add: exporter_wipe_def)
  have r: "render_all_clips env_ok ''tmp'' exporter_wipe
      = (exporter_wipe\<lparr> trace := [?k0, ?k1] \<rparr>, Inr ?rendered)"
    using render_two_plain [OF tl f(1)] by (simp add: f)
  have sa: "spec_assembly ''tmp'' ?tl ?rendered = ?plan"
    by (simp add: spec_assembly_def path_join_def)
  have uf: "until_failure env_ok ?plan = ?plan" "list_all (succeeded env_ok) ?plan"
    by (simp_all add: env_ok_fields)
  from export_assembly_path [of env_ok "''tmp''" exporter_wipe "''out.mp4''"]
  obtain evs res where
    h1: "render_all_clips env_ok ''tmp'' exporter_wipe
          = (exporter_wipe\<lparr> trace := trace exporter_wipe @ evs \<rparr>, res)"
    and h2: "\<forall>rendered. res = Inr rendered \<longrightarrow>
          (\<exists>res'. assemble env_ok ''tmp'' rendered (exporter_wipe\<lparr> trace := trace exporter_wipe @ evs \<rparr>)
               = (exporter_wipe\<lparr> trace := trace exporter_wipe @ evs
                     @ until_failure env_ok
                         (spec_assembly ''tmp'' (ex_timeline (exporter exporter_wipe)) rendered) \<rparr>, res')
             \<and> (isl res' \<longleftrightarrow>
                  \<not> list_all (succeeded env_ok)
                      (spec_assembly ''tmp'' (ex_timeline (exporter exporter_wipe)) rendered))
             \<and> export env_ok ''out.mp4'' ''tmp'' exporter_wipe
                 = wrap_failure
                     (case res' of
                        Inl e \<Rightarrow>
                          (exporter_wipe\<lparr> trace := trace exporter_wipe @ evs
                              @ until_failure env_ok
                                  (spec_assembly ''tmp'' (ex_timeline (exporter exporter_wipe)) rendered) \<rparr>,
                           Inl e)
                      | Inr final_video \<Rightarrow>
                          finalize env_ok ''out.mp4'' ''tmp'' final_video
                            (exporter_wipe\<lparr> trace := trace exporter_wipe @ evs
                                @ until_failure env_ok
                                    (spec_assembly ''tmp'' (ex_timeline (exporter exporter_wipe)) rendered) \<rparr>)))"
    by blast
  from h1 r have "trace (exporter_wipe\<lparr> trace := trace exporter_wipe @ evs \<rparr>)
      = trace (exporter_wipe\<lparr> trace := [?k0, ?k1] \<rparr>)" and rs: "res = Inr ?rendered"
    by simp_all
  then have ev: "evs = [?k0, ?k1]" by (simp add: f)
  from h2 rs obtain res' where
    a: "assemble env_ok ''tmp'' ?rendered (exporter_wipe\<lparr> trace := trace exporter_wipe @ evs \<rparr>)
          = (exporter_wipe\<lparr> trace := trace exporter_wipe @ evs
                @ until_failure env_ok (spec_assembly ''tmp'' (ex_timeline (exporter exporter_wipe)) ?rendered) \<rparr>,
             res')"
    and il: "isl res' \<longleftrightarrow> \<not> list_all (succeeded env_ok)
                (spec_assembly ''tmp'' (ex_timeline (exporter exporter_wipe)) ?rendered)"
    and x: "export env_ok ''out.mp4'' ''tmp'' exporter_wipe
          = wrap_failure
              (case res' of
                 Inl e \<Rightarrow>
                   (exporter_wipe\<lparr> trace := trace exporter_wipe @ evs
                       @ until_failure env_ok
                           (spec_assembly ''tmp'' (ex_timeline (exporter exporter_wipe)) ?rendered) \<rparr>,
                    Inl e)
               | Inr final_video \<Rightarrow>
                   finalize env_ok ''out.mp4'' ''tmp'' final_video
                     (exporter_wipe\<lparr> trace := trace exporter_wipe @ evs
                         @ until_failure env_ok
                             (spec_assembly ''tmp'' (ex_timeline (exporter exporter_wipe)) ?rendered) \<rparr>))"
    by blast
  have nc: "\<not> list_ex (\<lambda>c. transition c = ''crossfade'')
      (ex_timeline (exporter (exporter_wipe\<lparr> trace := trace exporter_wipe @ evs \<rparr>)))"
    by (simp add: tl)
  have "snd (assemble env_ok ''tmp'' ?rendered (exporter_wipe\<lparr> trace := trace exporter_wipe @ evs \<rparr>))
      = Inr ''tmp/concatenated.mp4''"
    using nc
    by (simp add: assemble_def concatenate_simple_def Let_def bind_exec_def return_exec_def
          run_checked_def env_ok_fields path_join_def)
  with a have fin: "res' = Inr ''tmp/concatenated.mp4''" by simp
  have c: "finalize env_ok ''out.mp4'' ''tmp'' ''tmp/concatenated.mp4''
          (exporter_wipe\<lparr> trace := [?k0, ?k1] @ ?plan \<rparr>)
      = (exporter_wipe\<lparr> trace := [?k0, ?k1] @ ?plan @ [Replaced ''tmp/concatenated.mp4'' ''out.mp4''] \<rparr>,
         Inr ())"
    by (simp add: finalize_def f copy_to_output_def env_ok_fields)
  from x c show ?thesis
    by (simp add: fin ev f tl sa uf wrap_failure_def)
qed

lemma render_three_plain:
  assumes "ex_timeline (exporter s)
      = [(new_clip (example_media 10))\<lparr> transition := t0 \<rparr>,
         (new_clip (example_media 10))\<lparr> transition := t1 \<rparr>,
         (new_clip (example_media 10))\<lparr> transition := t2 \<rparr>]"
    and "lut_dir (exporter s) = ''luts''"
  shows "render_all_clips env_ok ''tmp'' s
      = (s\<lparr> trace := trace s @
            [Ran (args [''ffmpeg'', ''-y'', ''-i'', ''a.mp4''] @ codec_args @ args [''tmp/clip_0.mp4'']),
             Ran (args [''ffmpeg'', ''-y'', ''-i'', ''a.mp4''] @ codec_args @ args [''tmp/clip_1.mp4'']),
             Ran (args [''ffmpeg'', ''-y'', ''-i'', ''a.mp4''] @ codec_args @ args [''tmp/clip_2.mp4''])] \<rparr>,
         Inr [''tmp/clip_0.mp4'', ''tmp/clip_1.mp4'', ''tmp/clip_2.mp4''])"
  using assms
  by (simp add: render_all_clips_def Let_def bind_exec_def return_exec_def render_single_clip_def
        env_ok_fields render_cmd_plain run_checked_def path_join_def str_nat_digits numeral_2_eq_2)

text \<open>
  Three clips with the transitions empty, \<open>crossfade\<close> and \<open>none\<close>. The chain is taken;
  the left clip of the first step has a transition that is not \<open>none\<close>, and the step is
  the filter-graph concat, not an xfade: \<open>getattr(..., 'transition', 'none') or 'none'\<close>
  reads the empty transition as \<open>none\<close>.
\<close>

theorem export_unnamed_counterexample:
  "transition (ex_timeline (exporter exporter_unnamed) ! 0) = []
   \<and> transition (ex_timeline (exporter exporter_unnamed) ! 1) = ''crossfade''
   \<and> export env_ok ''out.mp4'' ''tmp'' exporter_unnamed
     = (exporter_unnamed
          \<lparr> trace :=
              [Ran (args [''ffmpeg'', ''-y'', ''-i'', ''a.mp4''] @ codec_args @ args [''tmp/clip_0.mp4'']),
               Ran (args [''ffmpeg'', ''-y'', ''-i'', ''a.mp4''] @ codec_args @ args [''tmp/clip_1.mp4'']),
               Ran (args [''ffmpeg'', ''-y'', ''-i'', ''a.mp4''] @ codec_args @ args [''tmp/clip_2.mp4'']),
               Ran (concat_pair_cmd ''tmp/clip_0.mp4'' ''tmp/clip_1.mp4'' ''tmp/xfade_0.mp4''),
               Ran (xfade_cmd ''fade'' ''tmp/xfade_0.mp4'' ''tmp/clip_2.mp4'' ''tmp/xfade_1.mp4''),
               Replaced ''tmp/xfade_1.mp4'' ''out.mp4''] \<rparr>,
        Inr ())
   \<and> concat_pair_cmd ''tmp/clip_0.mp4'' ''tmp/clip_1.mp4'' ''tmp/xfade_0.mp4''
       \<noteq> xfade_cmd [] ''tmp/clip_0.mp4'' ''tmp/clip_1.mp4'' ''tmp/xfade_0.mp4''"
proof -
  let ?tl = "[(new_clip (example_media 10))\<lparr> transition := [] \<rparr>,
              (new_clip (example_media 10))\<lparr> transition := ''crossfade'' \<rparr>,
              (new_clip (example_media 10))\<lparr> transition := ''none'' \<rparr>]"
  let ?k0 = "Ran (args [''ffmpeg'', ''-y'', ''-i'', ''a.mp4''] @ codec_args @ args [''tmp/clip_0.mp4''])"
  let ?k1 = "Ran (args [''ffmpeg'', ''-y'', ''-i'', ''a.mp4''] @ codec_args @ args [''tmp/clip_1.mp4''])"
  let ?k2 = "Ran (args [''ffmpeg'', ''-y'', ''-i'', ''a.mp4''] @ codec_args @ args [''tmp/clip_2.mp4''])"
  let ?c = "Ran (concat_pair_cmd ''tmp/clip_0.mp4'' ''tmp/clip_1.mp4'' ''tmp/xfade_0.mp4'')"
  let ?x = "Ran (xfade_cmd ''fade'' ''tmp/xfade_0.mp4'' ''tmp/clip_2.mp4'' ''tmp/xfade_1.mp4'')"
  let ?s1 = "exporter_unnamed\<lparr> trace := [?k0, ?k1, ?k2] \<rparr>"
  have tl: "ex_timeline (exporter exporter_unnamed) = ?tl"
    by (simp add: exporter_unnamed_def new_clip_def)
  have f: "lut_dir (exporter exporter_unnamed) = ''luts''" "trace exporter_unnamed = []"
    "bg_music (exporter exporter_unnamed) = None"
    by (simp_all add: exporter_unnamed_def)
  have r: "render_all_clips env_ok ''tmp'' exporter_unnamed
      = (?s1, Inr [''tmp/clip_0.mp4'', ''tmp/clip_1.mp4'', ''tmp/clip_2.mp4''])"
    using render_three_plain [OF tl f(1)] by (simp add: f)
  have tc: "transition_cmd (transition_of ?tl 0) ''tmp/clip_0.mp4'' ''tmp/clip_1.mp4'' ''tmp/xfade_0.mp4''
      = concat_pair_cmd ''tmp/clip_0.mp4'' ''tmp/clip_1.mp4'' ''tmp/xfade_0.mp4''"
    "transition_cmd (transition_of ?tl (Suc 0)) ''tmp/xfade_0.mp4'' ''tmp/clip_2.mp4'' ''tmp/xfade_1.mp4''
      = xfade_cmd ''fade'' ''tmp/xfade_0.mp4'' ''tmp/clip_2.mp4'' ''tmp/xfade_1.mp4''"
    by (simp_all add: transition_of_def transition_cmd_def)
  have a: "assemble env_ok ''tmp'' [''tmp/clip_0.mp4'', ''tmp/clip_1.mp4'', ''tmp/clip_2.mp4''] ?s1
      = (exporter_unnamed\<lparr> trace := [?k0, ?k1, ?k2, ?c, ?x] \<rparr>, Inr ''tmp/xfade_1.mp4'')"
    using tc
    by (simp add: assemble_def tl concatenate_with_transitions_def Let_def bind_exec_def
          return_exec_def run_checked_def env_ok_fields path_join_def str_nat_digits)
  have c: "finalize env_ok ''out.mp4'' ''tmp'' ''tmp/xfade_1.mp4''
        (exporter_unnamed\<lparr> trace := [?k0, ?k1, ?k2, ?c, ?x] \<rparr>)
      = (exporter_unnamed\<lparr> trace := [?k0, ?k1, ?k2, ?c, ?x, Replaced ''tmp/xfade_1.mp4'' ''out.mp4''] \<rparr>,
         Inr ())"
    by (simp add: finalize_def f copy_to_output_def env_ok_fields)
  have e: "export env_ok ''out.mp4'' ''tmp'' exporter_unnamed
      = (exporter_unnamed\<lparr> trace := [?k0, ?k1, ?k2, ?c, ?x, Replaced ''tmp/xfade_1.mp4'' ''out.mp4''] \<rparr>,
         Inr ())"
    by (simp only: export_def bind_exec_def r a c prod.case sum.case wrap_failure_def)
  have d: "concat_pair_cmd ''tmp/clip_0.mp4'' ''tmp/clip_1.mp4'' ''tmp/xfade_0.mp4''
       \<noteq> xfade_cmd [] ''tmp/clip_0.mp4'' ''tmp/clip_1.mp4'' ''tmp/xfade_0.mp4''"
    by (simp add: concat_pair_cmd_def xfade_cmd_def args_def)
  show ?thesis using e d by (simp add: tl)
qed

text \<open>
  The chain on two clips, the first with the transition \<open>crossfade\<close>: one xfade step
  with the style \<open>fade\<close>, whose output is moved to the output path.
\<close>

lemma export_crossfade_chain:
  "export env_ok ''out.mp4'' ''tmp'' exporter_crossfade
     = (exporter_crossfade
          \<lparr> trace :=
              [Ran (args [''ffmpeg'', ''-y'', ''-i'', ''a.mp4''] @ codec_args @ args [''tmp/clip_0.mp4'']),
               Ran (args [''ffmpeg'', ''-y'', ''-i'', ''a.mp4''] @ codec_args @ args [''tmp/clip_1.mp4'']),
               Ran (xfade_cmd ''fade'' ''tmp/clip_0.mp4'' ''tmp/clip_1.mp4'' ''tmp/xfade_0.mp4''),
               Replaced ''tmp/xfade_0.mp4'' ''out.mp4''] \<rparr>,
        Inr ())"
proof -
  let ?tl = "[(new_clip (example_media 10))\<lparr> transition := ''crossfade'' \<rparr>,
              (new_clip (example_media 10))\<lparr> transition := ''none'' \<rparr>]"
  let ?k0 = "Ran (args [''ffmpeg'', ''-y'', ''-i'', ''a.mp4''] @ codec_args @ args [''tmp/clip_0.mp4''])"
  let ?k1 = "Ran (args [''ffmpeg'', ''-y'', ''-i'', ''a.mp4''] @ codec_args @ args [''tmp/clip_1.mp4''])"
  let ?x = "Ran (xfade_cmd ''fade'' ''tmp/clip_0.mp4'' ''tmp/clip_1.mp4'' ''tmp/xfade_0.mp4'')"
  let ?s1 = "exporter_crossfade\<lparr> trace := [?k0, ?k1] \<rparr>"
  have tl: "ex_timeline (exporter exporter_crossfade) = ?tl"
    by (simp add: exporter_crossfade_def new_clip_def)
  have f: "lut_dir (exporter exporter_crossfade) = ''luts''" "trace exporter_crossfade = []"
    "bg_music (exporter exporter_crossfade) = None"
    by (simp_all add: exporter_crossfade_def)
  have r: "render_all_clips env_ok ''tmp'' exporter_crossfade = (?s1, Inr [''tmp/clip_0.mp4'', ''tmp/clip_1.mp4''])"
    using render_two_plain [OF tl f(1)] by (simp add: f)
  have tc: "transition_cmd (transition_of ?tl 0) ''tmp/clip_0.mp4'' ''tmp/clip_1.mp4'' ''tmp/xfade_0.mp4''
      = xfade_cmd ''fade'' ''tmp/clip_0.mp4'' ''tmp/clip_1.mp4'' ''tmp/xfade_0.mp4''"
    by (simp add: transition_of_def transition_cmd_def)
  have a: "assemble env_ok ''tmp'' [''tmp/clip_0.mp4'', ''tmp/clip_1.mp4''] ?s1
      = (exporter_crossfade\<lparr> trace := [?k0, ?k1, ?x] \<rparr>, Inr ''tmp/xfade_0.mp4'')"
    using tc
    by (simp add: assemble_def tl concatenate_with_transitions_def Let_def bind_exec_def
          return_exec_def run_checked_def env_ok_fields path_join_def str_nat_digits)
  have c: "finalize env_ok ''out.mp4'' ''tmp'' ''tmp/xfade_0.mp4'' (exporter_crossfade\<lparr> trace := [?k0, ?k1, ?x] \<rparr>)
      = (exporter_crossfade\<lparr> trace := [?k0, ?k1, ?x, Replaced ''tmp/xfade_0.mp4'' ''out.mp4''] \<rparr>, Inr ())"
    by (simp add: finalize_def f copy_to_output_def env_ok_fields)
  show ?thesis
    by (simp only: export_def bind_exec_def r a c prod.case sum.case wrap_failure_def)
qed

end
